theory Spec2Isabelle
  imports Complex_Main "HOL-Library.Product_Lexorder"
begin

section \<open>Data model of \<open>models.py\<close>\<close>

text \<open>
  A pandas \<open>Timestamp\<close> is a calendar date with a time of day. The source only
  compares timestamps, adds whole days and moves between months, so the model
  keeps the calendar fields and the time of day (in nanoseconds since midnight).
  The year is not bounded here; pandas holds the years 1677 to 2262.
\<close>

record timestamp =
  year :: int
  month :: nat
  day :: nat
  tod :: nat

text \<open>
  A float cell of a value column: \<open>None\<close> is the null value (NaN), \<open>Some x\<close> a
  finite float, idealised as a real number.
\<close>

type_synonym cell = "real option"

text \<open>
  A single-column frame indexed by dates (\<open>df[[value_column]]\<close> after
  \<open>set_index\<close>): the rows in order. An index entry is a timestamp or \<open>NaT\<close>,
  the missing date (\<open>None\<close>).
\<close>

type_synonym series = "(timestamp option \<times> cell) list"

text \<open>
  A forecast frame: one column of values indexed by the timestamps
  \<open>pd.date_range\<close> produced.
\<close>

type_synonym forecast_frame = "(timestamp \<times> cell) list"

text \<open>
  An entry of the date column as \<open>pd.to_datetime\<close> reads it: a value it parses
  to a timestamp, a missing value (\<open>None\<close>, \<open>NaN\<close>), which it turns into \<open>NaT\<close>
  without raising, or a value it cannot parse, on which it raises.
\<close>

datatype raw_date = DateValue timestamp | DateMissing | DateInvalid

text \<open>
  The raw frame handed to \<open>prepare_data\<close>: the names of the columns other than
  the date column, and the rows. A row holds the entry of the date column and
  the numeric cell of every column.
\<close>

record frame =
  columns :: "string list"
  rows :: "(raw_date \<times> (string \<Rightarrow> cell)) list"

text \<open>What the code hands to \<open>AutoTS.fit\<close>: the raw frame or a prepared series.\<close>

datatype table = Raw frame | Prepared series

text \<open>The \<open>model_list\<close> argument of \<open>AutoTS\<close>: a preset name or an explicit list.\<close>

datatype model_list = Preset string | Models "string list"

text \<open>
  The keyword arguments of the two \<open>AutoTS(...)\<close> calls; an argument the call
  does not pass is \<open>None\<close>.
\<close>

record autots_args =
  a_forecast_length :: int
  a_frequency :: string
  a_model_list :: model_list
  a_ensemble :: "string option"
  a_max_generations :: nat
  a_num_validations :: nat
  a_validation_method :: "string option"
  a_no_negatives :: "bool option"
  a_constraint :: "real option"
  a_drop_most_recent :: "nat option"

text \<open>
  The outcome of \<open>model.predict()\<close> as \<open>predict\<close> inspects it: the call raises,
  the result is unusable (\<open>None\<close>, or no \<open>forecast\<close> attribute), or it carries a
  forecast frame.
\<close>

datatype predict_outcome = PredictRaises | PredictUnusable | PredictForecast forecast_frame

text \<open>
  A fitted \<open>AutoTS\<close> object: \<open>best_name\<close> is its \<open>best_model_name\<close> attribute
  (\<open>None\<close>: attribute absent or \<open>None\<close>).
\<close>

record autots_model =
  best_name :: "string option"
  predict_result :: predict_outcome

datatype fit_outcome = FitRaises | Fitted autots_model

text \<open>
  The libraries the code calls and whose behaviour the source does not fix:
  constructing and fitting an \<open>AutoTS\<close> object; \<open>pd.date_range\<close> for a
  frequency string other than \<open>'D'\<close> and \<open>'ME'\<close>, from a start and a number of
  periods (\<open>None\<close>: the call raises); and the float64 least-squares routine
  \<open>np.polyfit(x, y, 1)\<close> on values without nulls, which returns the slope and
  the intercept as it rounds them (\<open>None\<close>: not a finite number).
\<close>

record library =
  autots_fit :: "autots_args \<Rightarrow> table \<Rightarrow> fit_outcome"
  date_range_freq :: "string \<Rightarrow> timestamp \<Rightarrow> int \<Rightarrow> timestamp list option"
  np_polyfit :: "real list \<Rightarrow> real list \<Rightarrow> cell \<times> cell"

text \<open>
  The attributes of \<open>UniversalForecastModel\<close>. \<open>fit_calls\<close> is not a Python
  attribute: it records the arguments of every \<open>AutoTS\<close> object the code has
  constructed and fitted, in order.
\<close>

record model_state =
  forecast_length :: int
  frequency :: string
  model_complexity :: string
  model :: "autots_model option"
  best_model_name :: "string option"
  training_successful :: bool
  historical_data :: "series option"
  fit_calls :: "autots_args list"

definition init_model :: "int \<Rightarrow> string \<Rightarrow> string \<Rightarrow> model_state" where
  "init_model fl fr mc =
     \<lparr>forecast_length = fl, frequency = fr, model_complexity = mc, model = None,
      best_model_name = None, training_successful = False, historical_data = None,
      fit_calls = []\<rparr>"

section \<open>Model selection\<close>

definition get_model_list :: "model_state \<Rightarrow> nat \<Rightarrow> string" where
  "get_model_list S data_length =
     (if model_complexity S = ''simple'' then ''superfast''
      else if model_complexity S = ''medium'' then ''fast''
      else if model_complexity S = ''complex'' then ''default''
      else ''all'')"

text \<open>Lines 97 to 105 of \<open>train\<close>: (generations, validations) from the data length.\<close>

definition training_effort :: "nat \<Rightarrow> nat \<times> nat" where
  "training_effort data_length =
     (if data_length \<le> 12 then (1, 1)
      else if data_length \<le> 24 then (2, 2)
      else (3, 3))"

text \<open>The \<open>AutoTS(...)\<close> call of \<open>train\<close>.\<close>

definition primary_args :: "model_state \<Rightarrow> nat \<Rightarrow> autots_args" where
  "primary_args S data_length =
     \<lparr>a_forecast_length = forecast_length S, a_frequency = frequency S,
      a_model_list = Preset (get_model_list S data_length),
      a_ensemble = Some ''simple'',
      a_max_generations = fst (training_effort data_length),
      a_num_validations = snd (training_effort data_length),
      a_validation_method = Some ''backwards'', a_no_negatives = Some True,
      a_constraint = Some 2, a_drop_most_recent = Some 0\<rparr>"

text \<open>The \<open>AutoTS(...)\<close> call of \<open>_train_simple_fallback\<close>.\<close>

definition fallback_args :: "model_state \<Rightarrow> autots_args" where
  "fallback_args S =
     \<lparr>a_forecast_length = forecast_length S, a_frequency = frequency S,
      a_model_list = Models [''LastValueNaive'', ''AverageValueNaive'', ''ETS'', ''ARIMA''],
      a_ensemble = None, a_max_generations = 1, a_num_validations = 1,
      a_validation_method = None, a_no_negatives = None,
      a_constraint = None, a_drop_most_recent = None\<rparr>"

section \<open>Data preparation\<close>

text \<open>Timestamps are ordered as calendar instants: by year, month, day, time of day.\<close>

definition ts_key :: "timestamp \<Rightarrow> int \<times> nat \<times> nat \<times> nat" where
  "ts_key t = (year t, month t, day t, tod t)"

text \<open>
  The sort order of index entries: timestamps in their order, \<open>NaT\<close> after
  every timestamp (\<open>na_position='last'\<close> is the default of \<open>sort_values\<close>).
\<close>

fun index_key :: "timestamp option \<Rightarrow> bool \<times> int \<times> nat \<times> nat \<times> nat" where
  "index_key None = (True, 0, 0, 0, 0)"
| "index_key (Some t) = (False, ts_key t)"

text \<open>
  \<open>pd.to_datetime\<close> on the date column: a missing entry becomes \<open>NaT\<close>, and
  the call raises on the first entry it cannot parse.
\<close>

fun to_datetime :: "(raw_date \<times> 'a) list \<Rightarrow> (timestamp option \<times> 'a) list option" where
  "to_datetime [] = Some []"
| "to_datetime ((DateInvalid, c) # rs) = None"
| "to_datetime ((DateMissing, c) # rs) = map_option ((#) (None, c)) (to_datetime rs)"
| "to_datetime ((DateValue t, c) # rs) = map_option ((#) (Some t, c)) (to_datetime rs)"

text \<open>
  \<open>df.drop_duplicates(subset=[date_column])\<close>: pandas keeps the first row of
  every date (\<open>keep='first'\<close> is the default) and counts two missing dates as
  the same date; \<open>seen\<close> holds the dates met so far.
\<close>

fun drop_duplicates_from ::
  "timestamp option list \<Rightarrow> (timestamp option \<times> 'a) list \<Rightarrow> (timestamp option \<times> 'a) list" where
  "drop_duplicates_from seen [] = []"
| "drop_duplicates_from seen (r # rs) =
     (if fst r \<in> set seen then drop_duplicates_from seen rs
      else r # drop_duplicates_from (fst r # seen) rs)"

definition drop_duplicates :: "(timestamp option \<times> 'a) list \<Rightarrow> (timestamp option \<times> 'a) list" where
  "drop_duplicates rs = drop_duplicates_from [] rs"

text \<open>\<open>df.sort_values(date_column)\<close>, ascending, missing dates last.\<close>

definition sort_values :: "(timestamp option \<times> 'a) list \<Rightarrow> (timestamp option \<times> 'a) list" where
  "sort_values rs = sort_key (\<lambda>r. index_key (fst r)) rs"

text \<open>\<open>df[[value_column]]\<close> on the frame indexed by date.\<close>

definition select_column ::
  "string \<Rightarrow> (timestamp option \<times> (string \<Rightarrow> cell)) list \<Rightarrow> series" where
  "select_column c rs = map (\<lambda>r. (fst r, snd r c)) rs"

definition isnull_any :: "series \<Rightarrow> bool" where
  "isnull_any s = (None \<in> set (map snd s))"

text \<open>
  \<open>Series.interpolate()\<close> with pandas' defaults (\<open>method='linear'\<close>,
  \<open>limit_direction='forward'\<close>): the rows count as equally spaced; a null between
  two values is filled on the straight line between the nearest value before
  it and the nearest value after it; a null after the last value takes the last
  value; a null before the first value stays null.
\<close>

definition prev_valid :: "cell list \<Rightarrow> nat \<Rightarrow> nat option" where
  "prev_valid xs i = find (\<lambda>j. xs ! j \<noteq> None) (rev [0..<i])"

definition next_valid :: "cell list \<Rightarrow> nat \<Rightarrow> nat option" where
  "next_valid xs i = find (\<lambda>j. xs ! j \<noteq> None) [Suc i..<length xs]"

definition interpolate_at :: "cell list \<Rightarrow> nat \<Rightarrow> cell" where
  "interpolate_at xs i =
     (case xs ! i of
        Some v \<Rightarrow> Some v
      | None \<Rightarrow>
         (case prev_valid xs i of
            None \<Rightarrow> None
          | Some p \<Rightarrow>
             (case next_valid xs i of
                None \<Rightarrow> xs ! p
              | Some q \<Rightarrow>
                  Some (the (xs ! p) +
                        (the (xs ! q) - the (xs ! p)) * real (i - p) / real (q - p)))))"

definition interpolate :: "cell list \<Rightarrow> cell list" where
  "interpolate xs = map (interpolate_at xs) [0..<length xs]"

text \<open>\<open>ts_data[value_column] = ts_data[value_column].interpolate()\<close>.\<close>

definition interpolate_column :: "series \<Rightarrow> series" where
  "interpolate_column s = zip (map fst s) (interpolate (map snd s))"

text \<open>
  \<open>prepare_data\<close> returns the prepared series, or \<open>None\<close>, and the updated
  object. Every exception inside is caught and turned into \<open>None\<close>.
\<close>

definition prepare_data :: "model_state \<Rightarrow> frame \<Rightarrow> string \<Rightarrow> series option \<times> model_state" where
  "prepare_data S data value_column =
     (case to_datetime (rows data) of
        None \<Rightarrow> (None, S)
      | Some parsed \<Rightarrow>
          (let df = sort_values (drop_duplicates parsed) in
           if length df < 6 then (None, S)
           else if value_column \<notin> set (columns data) then (None, S)
           else
             (let ts_data = select_column value_column df;
                  S' = S\<lparr>historical_data := Some ts_data\<rparr>
              in if isnull_any ts_data then (Some (interpolate_column ts_data), S')
                 else (Some ts_data, S'))))"

section \<open>Training\<close>

text \<open>Python truthiness of a name that may be absent, \<open>None\<close> or a string.\<close>

fun truthy :: "string option \<Rightarrow> bool" where
  "truthy None = False"
| "truthy (Some s) = (s \<noteq> [])"

text \<open>
  \<open>_train_simple_fallback(data, value_column=None)\<close>. \<open>train\<close> calls it with
  the prepared series and no column, or, from its exception handler, with the
  raw frame and the column. \<open>prepare_data\<close> on an already prepared series finds
  no date column and returns \<open>None\<close>.
\<close>

definition train_simple_fallback ::
  "library \<Rightarrow> model_state \<Rightarrow> table \<Rightarrow> string option \<Rightarrow> bool \<times> model_state" where
  "train_simple_fallback lib S data value_column =
     (let (ts_data, S1) =
            (if truthy value_column then
               (case data of
                  Raw f \<Rightarrow>
                    (case prepare_data S f (the value_column) of
                       (r, S') \<Rightarrow> (map_option Prepared r, S'))
                | Prepared s \<Rightarrow> (None, S))
             else (Some data, S))
      in case ts_data of
           None \<Rightarrow> (False, S1)
         | Some t \<Rightarrow>
             (let args = fallback_args S1;
                  S2 = S1\<lparr>fit_calls := fit_calls S1 @ [args]\<rparr>
              in case autots_fit lib args t of
                   FitRaises \<Rightarrow> (False, S2)
                 | Fitted m \<Rightarrow>
                     (let S3 = S2\<lparr>model := Some m\<rparr>
                      in if truthy (best_name m) then
                           (True, S3\<lparr>best_model_name := Some (the (best_name m) @ '' (fallback)''),
                                     training_successful := True\<rparr>)
                         else (False, S3))))"

definition train :: "library \<Rightarrow> model_state \<Rightarrow> frame \<Rightarrow> string \<Rightarrow> bool \<times> model_state" where
  "train lib S data value_column =
     (case prepare_data S data value_column of
        (None, S1) \<Rightarrow> (False, S1)
      | (Some ts_data, S1) \<Rightarrow>
          (let args = primary_args S1 (length ts_data);
               S2 = S1\<lparr>fit_calls := fit_calls S1 @ [args]\<rparr>
           in case autots_fit lib args (Prepared ts_data) of
                FitRaises \<Rightarrow> train_simple_fallback lib S2 (Raw data) (Some value_column)
              | Fitted m \<Rightarrow>
                  (let S3 = S2\<lparr>model := Some m\<rparr>
                   in if truthy (best_name m) \<and> best_name m \<noteq> Some ''ZeroesNaive'' then
                        (True, S3\<lparr>best_model_name := best_name m, training_successful := True\<rparr>)
                      else train_simple_fallback lib S3 (Prepared ts_data) None)))"

section \<open>Calendar arithmetic of the forecast dates\<close>

definition leap_year :: "int \<Rightarrow> bool" where
  "leap_year y = (y mod 4 = 0 \<and> (y mod 100 \<noteq> 0 \<or> y mod 400 = 0))"

definition days_in_month :: "int \<Rightarrow> nat \<Rightarrow> nat" where
  "days_in_month y m =
     (if m = 2 then (if leap_year y then 29 else 28)
      else if m = 4 \<or> m = 6 \<or> m = 9 \<or> m = 11 then 30
      else 31)"

definition next_day :: "timestamp \<Rightarrow> timestamp" where
  "next_day t =
     (if day t < days_in_month (year t) (month t) then t\<lparr>day := day t + 1\<rparr>
      else if month t < 12 then t\<lparr>month := month t + 1, day := 1\<rparr>
      else t\<lparr>year := year t + 1, month := 1, day := 1\<rparr>)"

text \<open>\<open>t + timedelta(days=n)\<close>.\<close>

definition add_days :: "timestamp \<Rightarrow> nat \<Rightarrow> timestamp" where
  "add_days t n = (next_day ^^ n) t"

text \<open>
  \<open>t + pd.offsets.MonthBegin(1)\<close>: the first day of the following month, at the
  same time of day, whether or not \<open>t\<close> is itself a first of the month.
\<close>

definition month_begin_next :: "timestamp \<Rightarrow> timestamp" where
  "month_begin_next t =
     (if month t < 12 then t\<lparr>month := month t + 1, day := 1\<rparr>
      else t\<lparr>year := year t + 1, month := 1, day := 1\<rparr>)"

text \<open>The last day of the month of \<open>t\<close>, at the same time of day.\<close>

definition month_end :: "timestamp \<Rightarrow> timestamp" where
  "month_end t = t\<lparr>day := days_in_month (year t) (month t)\<rparr>"

text \<open>
  \<open>pd.date_range(start, periods, freq)\<close>. It raises when \<open>start\<close> is \<open>NaT\<close>.
  For \<open>'D'\<close> it counts days from \<open>start\<close> and raises on a negative number of
  periods; for \<open>'ME'\<close> it lists month ends, from the first month end that is
  not before \<open>start\<close>, and lists none for a negative number of periods; every
  other frequency string is left to the library.
\<close>

definition date_range ::
  "library \<Rightarrow> timestamp option \<Rightarrow> int \<Rightarrow> string \<Rightarrow> timestamp list option" where
  "date_range lib start periods freq =
     (case start of
        None \<Rightarrow> None
      | Some s \<Rightarrow>
          (if freq = ''D'' then
             (if periods < 0 then None else Some (map (add_days s) [0..<nat periods]))
           else if freq = ''ME'' then
             Some (map (\<lambda>k. ((\<lambda>t. month_end (month_begin_next t)) ^^ k) (month_end s))
                       [0..<nat periods])
           else date_range_freq lib freq s periods))"

text \<open>
  The calendar month of a timestamp as a number: months counted from January of
  year 0. Two timestamps with valid months lie in the same calendar month
  exactly when their numbers agree.
\<close>

definition month_index :: "timestamp \<Rightarrow> int" where
  "month_index t = year t * 12 + int (month t) - 1"

section \<open>Trend extrapolation\<close>

text \<open>Float arithmetic on cells: a null operand gives a null result.\<close>

fun cell_add :: "cell \<Rightarrow> cell \<Rightarrow> cell" where
  "cell_add (Some a) (Some b) = Some (a + b)"
| "cell_add _ _ = None"

fun cell_mul :: "cell \<Rightarrow> cell \<Rightarrow> cell" where
  "cell_mul (Some a) (Some b) = Some (a * b)"
| "cell_mul _ _ = None"

text \<open>
  \<open>np.polyfit(x, values, 1)\<close>: a null among the values makes both coefficients
  null; on values without nulls the slope and the intercept are what the
  library's float64 routine returns.
\<close>

definition polyfit1 :: "library \<Rightarrow> real list \<Rightarrow> cell list \<Rightarrow> cell \<times> cell" where
  "polyfit1 lib xs ys =
     (if None \<in> set ys then (None, None) else np_polyfit lib xs (map the ys))"

text \<open>\<open>np.arange(a, b)\<close> on integers, as floats.\<close>

definition arange :: "int \<Rightarrow> int \<Rightarrow> real list" where
  "arange a b = map real_of_int [a..b - 1]"

text \<open>\<open>pd.DataFrame(values, index=dates, columns=[...])\<close> raises when the lengths differ.\<close>

definition data_frame :: "cell list \<Rightarrow> timestamp list \<Rightarrow> forecast_frame option" where
  "data_frame vals dates = (if length vals = length dates then Some (zip dates vals) else None)"

text \<open>
  The forecast values of \<open>_simple_trend_forecast\<close>; \<open>None\<close> when \<open>values[-1]\<close>
  raises on an empty array.
\<close>

definition trend_values :: "library \<Rightarrow> int \<Rightarrow> cell list \<Rightarrow> cell list option" where
  "trend_values lib fl vals =
     (if length vals < 2 then
        (if vals = [] then None else Some (replicate (nat fl) (last vals)))
      else
        (let n = int (length vals);
             (slope, intercept) = polyfit1 lib (arange 0 n) vals;
             future_x = arange n (n + fl)
         in Some (map (\<lambda>x. cell_add (cell_mul slope (Some x)) intercept) future_x)))"

text \<open>
  The forecast dates of \<open>_simple_trend_forecast\<close>, from the last historical
  date. Adding a \<open>timedelta\<close> or an offset to \<open>NaT\<close> gives \<open>NaT\<close>.
\<close>

definition trend_dates ::
  "library \<Rightarrow> string \<Rightarrow> int \<Rightarrow> timestamp option \<Rightarrow> timestamp list option" where
  "trend_dates lib freq fl last_date =
     (if freq = ''D'' then date_range lib (map_option (\<lambda>t. add_days t 1) last_date) fl ''D''
      else if freq = ''ME'' then date_range lib (map_option month_begin_next last_date) fl ''ME''
      else date_range lib (map_option (\<lambda>t. add_days t 30) last_date) fl freq)"

definition simple_trend_forecast :: "library \<Rightarrow> model_state \<Rightarrow> forecast_frame option" where
  "simple_trend_forecast lib S =
     (case historical_data S of
        None \<Rightarrow> None
      | Some hist \<Rightarrow>
          (case trend_values lib (forecast_length S) (map snd hist) of
             None \<Rightarrow> None
           | Some forecast_values \<Rightarrow>
               (if hist = [] then None
                else
                  (case trend_dates lib (frequency S) (forecast_length S) (fst (last hist)) of
                     None \<Rightarrow> None
                   | Some dates \<Rightarrow> data_frame forecast_values dates))))"

section \<open>Prediction and the entry point\<close>

definition predict :: "library \<Rightarrow> model_state \<Rightarrow> forecast_frame option" where
  "predict lib S =
     (if \<not> training_successful S \<or> model S = None then simple_trend_forecast lib S
      else
        (case predict_result (the (model S)) of
           PredictForecast f \<Rightarrow> Some f
         | PredictUnusable \<Rightarrow> simple_trend_forecast lib S
         | PredictRaises \<Rightarrow> simple_trend_forecast lib S))"

definition create_forecast ::
  "library \<Rightarrow> frame \<Rightarrow> string \<Rightarrow> int \<Rightarrow> string \<Rightarrow> string \<Rightarrow>
     forecast_frame option \<times> model_state \<times> bool" where
  "create_forecast lib data value_column forecast_months complexity freq =
     (case train lib (init_model forecast_months freq complexity) data value_column of
        (success, S) \<Rightarrow>
          (if success then (predict lib S, S, True)
           else (let forecast = simple_trend_forecast lib S in (forecast, S, forecast \<noteq> None))))"

section \<open>Example inputs\<close>

text \<open>A timestamp at midnight.\<close>

definition day_stamp :: "int \<Rightarrow> nat \<Rightarrow> nat \<Rightarrow> timestamp" where
  "day_stamp y m d = \<lparr>year = y, month = m, day = d, tod = 0\<rparr>"

text \<open>The month ends of 2024, as \<open>pd.date_range(..., freq='ME')\<close> lists them.\<close>

definition month_ends_2024 :: "timestamp list" where
  "month_ends_2024 =
     [day_stamp 2024 1 31, day_stamp 2024 2 29, day_stamp 2024 3 31, day_stamp 2024 4 30,
      day_stamp 2024 5 31, day_stamp 2024 6 30, day_stamp 2024 7 31, day_stamp 2024 8 31,
      day_stamp 2024 9 30, day_stamp 2024 10 31]"

text \<open>A frame with one row for each of the first month ends of 2024 and a price column.\<close>

definition price_frame :: "cell list \<Rightarrow> frame" where
  "price_frame vals =
     \<lparr>columns = [''price''],
      rows = map (\<lambda>r. (DateValue (fst r), \<lambda>c. snd r)) (zip month_ends_2024 vals)\<rparr>"

text \<open>
  The least-squares line through the points, in exact arithmetic: what the
  example libraries return for \<open>np.polyfit(x, y, 1)\<close>.
\<close>

definition least_squares :: "real list \<Rightarrow> real list \<Rightarrow> cell \<times> cell" where
  "least_squares xs vs =
     (let n = real (length xs);
          sx = sum_list xs;
          sy = sum_list vs;
          sxx = sum_list (map (\<lambda>x. x * x) xs);
          sxy = sum_list (map (\<lambda>(x, y). x * y) (zip xs vs));
          slope = (n * sxy - sx * sy) / (n * sxx - sx * sx);
          intercept = (sy - slope * sx) / n
      in (Some slope, Some intercept))"

text \<open>A library in which every training call raises.\<close>

definition failing_library :: library where
  "failing_library =
     \<lparr>autots_fit = (\<lambda>a t. FitRaises), date_range_freq = (\<lambda>f s n. None),
      np_polyfit = least_squares\<rparr>"

text \<open>A row whose numeric columns all hold the same cell.\<close>

definition num_row :: "timestamp \<Rightarrow> cell \<Rightarrow> raw_date \<times> (string \<Rightarrow> cell)" where
  "num_row t v = (DateValue t, \<lambda>c. v)"

text \<open>An unsorted frame with a repeated date and with interior and trailing nulls.\<close>

definition gappy_frame :: frame where
  "gappy_frame =
     \<lparr>columns = [''price''],
      rows = [num_row (day_stamp 2024 3 31) (Some 3), num_row (day_stamp 2024 1 31) (Some 1),
              num_row (day_stamp 2024 2 29) None, num_row (day_stamp 2024 3 31) (Some 99),
              num_row (day_stamp 2024 4 30) None, num_row (day_stamp 2024 5 31) (Some 5),
              num_row (day_stamp 2024 6 30) None]\<rparr>"

text \<open>
  A frame whose dates are unevenly spaced, with a null price at the earliest
  date and one between 2024-01-02 and 2024-01-31.
\<close>

definition uneven_frame :: frame where
  "uneven_frame =
     \<lparr>columns = [''price''],
      rows = [num_row (day_stamp 2024 1 1) None, num_row (day_stamp 2024 1 2) (Some 0),
              num_row (day_stamp 2024 1 3) None, num_row (day_stamp 2024 1 31) (Some 30),
              num_row (day_stamp 2024 2 29) (Some 40), num_row (day_stamp 2024 3 31) (Some 50)]\<rparr>"

text \<open>Six month ends with prices on a line.\<close>

definition six_prices :: frame where
  "six_prices = price_frame [Some 100, Some 110, Some 120, Some 130, Some 140, Some 150]"

text \<open>The same six rows and a seventh row whose date is missing.\<close>

definition missing_date_frame :: frame where
  "missing_date_frame =
     \<lparr>columns = [''price''],
      rows = rows six_prices @ [(DateMissing, \<lambda>c. Some 160)]\<rparr>"

text \<open>
  A library whose primary training selects the zero baseline, with a forecast
  of zeros, and whose fallback training selects \<open>ETS\<close>, with a forecast of its
  own.
\<close>

definition zero_then_ets_library :: library where
  "zero_then_ets_library =
     \<lparr>autots_fit = (\<lambda>a t.
        if a_model_list a = Models [''LastValueNaive'', ''AverageValueNaive'', ''ETS'', ''ARIMA'']
        then Fitted \<lparr>best_name = Some ''ETS'',
                      predict_result = PredictForecast [(day_stamp 2024 7 31, Some 160),
                                                        (day_stamp 2024 8 31, Some 170)]\<rparr>
        else Fitted \<lparr>best_name = Some ''ZeroesNaive'',
                      predict_result = PredictForecast [(day_stamp 2024 7 31, Some 0),
                                                        (day_stamp 2024 8 31, Some 0)]\<rparr>),
      date_range_freq = (\<lambda>f s n. None), np_polyfit = least_squares\<rparr>"

text \<open>A history of one point dated in the middle of a month.\<close>

definition mid_january_point :: series where
  "mid_january_point = [(Some (day_stamp 2024 1 15), Some 5000)]"

section \<open>Properties of model selection\<close>

text \<open>
  C5. Model selection is a function of the complexity tier and the data length:
  the tiers simple, medium, complex and all select the candidate sets
  superfast, fast, default and all, and the primary \<open>AutoTS\<close> call gets
  (generations, validations) = (1, 1) for a length up to 12, (2, 2) for a
  length from 13 to 24 and (3, 3) above 24; so both numbers strictly increase
  across the thresholds 12 and 24.
\<close>

theorem model_selection_profile:
  "(model_complexity S = ''simple'' \<longrightarrow> a_model_list (primary_args S n) = Preset ''superfast'') \<and>
   (model_complexity S = ''medium'' \<longrightarrow> a_model_list (primary_args S n) = Preset ''fast'') \<and>
   (model_complexity S = ''complex'' \<longrightarrow> a_model_list (primary_args S n) = Preset ''default'') \<and>
   (model_complexity S = ''all'' \<longrightarrow> a_model_list (primary_args S n) = Preset ''all'') \<and>
   (n \<le> 12 \<longrightarrow>
      a_max_generations (primary_args S n) = 1 \<and> a_num_validations (primary_args S n) = 1) \<and>
   (12 < n \<and> n \<le> 24 \<longrightarrow>
      a_max_generations (primary_args S n) = 2 \<and> a_num_validations (primary_args S n) = 2) \<and>
   (24 < n \<longrightarrow>
      a_max_generations (primary_args S n) = 3 \<and> a_num_validations (primary_args S n) = 3) \<and>
   (\<forall>a b c. a \<le> 12 \<and> 12 < b \<and> b \<le> 24 \<and> 24 < c \<longrightarrow>
      a_max_generations (primary_args S a) < a_max_generations (primary_args S b) \<and>
      a_max_generations (primary_args S b) < a_max_generations (primary_args S c) \<and>
      a_num_validations (primary_args S a) < a_num_validations (primary_args S b) \<and>
      a_num_validations (primary_args S b) < a_num_validations (primary_args S c))"
  by (simp add: primary_args_def get_model_list_def training_effort_def)

theorem model_selection_profile_witness:
  "a_model_list (primary_args (init_model 12 ''ME'' ''simple'') 12) = Preset ''superfast'' \<and>
   a_model_list (primary_args (init_model 12 ''ME'' ''medium'') 12) = Preset ''fast'' \<and>
   a_model_list (primary_args (init_model 12 ''ME'' ''complex'') 12) = Preset ''default'' \<and>
   a_model_list (primary_args (init_model 12 ''ME'' ''all'') 12) = Preset ''all'' \<and>
   a_max_generations (primary_args (init_model 12 ''ME'' ''simple'') 12) = 1 \<and>
   a_num_validations (primary_args (init_model 12 ''ME'' ''simple'') 12) = 1 \<and>
   a_max_generations (primary_args (init_model 12 ''ME'' ''simple'') 13) = 2 \<and>
   a_num_validations (primary_args (init_model 12 ''ME'' ''simple'') 24) = 2 \<and>
   a_max_generations (primary_args (init_model 12 ''ME'' ''simple'') 25) = 3 \<and>
   a_num_validations (primary_args (init_model 12 ''ME'' ''simple'') 25) = 3 \<and>
   a_max_generations (primary_args (init_model 12 ''ME'' ''simple'') 12)
     < a_max_generations (primary_args (init_model 12 ''ME'' ''simple'') 13) \<and>
   a_num_validations (primary_args (init_model 12 ''ME'' ''simple'') 24)
     < a_num_validations (primary_args (init_model 12 ''ME'' ''simple'') 25)"
  using model_selection_profile [of "init_model 12 ''ME'' ''simple''" 12]
    model_selection_profile [of "init_model 12 ''ME'' ''medium''" 12]
    model_selection_profile [of "init_model 12 ''ME'' ''complex''" 12]
    model_selection_profile [of "init_model 12 ''ME'' ''all''" 12]
    model_selection_profile [of "init_model 12 ''ME'' ''simple''" 13]
    model_selection_profile [of "init_model 12 ''ME'' ''simple''" 24]
    model_selection_profile [of "init_model 12 ''ME'' ''simple''" 25]
  by (simp add: init_model_def)

text \<open>
  C10. The candidate set chosen by \<open>get_model_list\<close> does not depend on the data
  length, and every complexity tier other than simple, medium and complex, the
  documented \<open>'all'\<close> or any other string, selects the candidate set \<open>'all'\<close>.
\<close>

theorem model_list_ignores_length:
  "get_model_list S n = get_model_list S m \<and>
   (model_complexity S \<notin> {''simple'', ''medium'', ''complex''} \<longrightarrow>
      get_model_list S n = ''all'')"
  by (simp add: get_model_list_def)

theorem model_list_ignores_length_witness:
  "get_model_list (init_model 12 ''ME'' ''banana'') 6 =
     get_model_list (init_model 12 ''ME'' ''banana'') 100 \<and>
   model_complexity (init_model 12 ''ME'' ''banana'') \<notin> {''simple'', ''medium'', ''complex''} \<and>
   get_model_list (init_model 12 ''ME'' ''banana'') 6 = ''all''"
proof -
  have tier: "model_complexity (init_model 12 ''ME'' ''banana'') \<notin> {''simple'', ''medium'', ''complex''}"
    by (simp add: init_model_def)
  from model_list_ignores_length [of "init_model 12 ''ME'' ''banana''" 6 100] tier
  show ?thesis by blast
qed

section \<open>Facts about data preparation\<close>

lemma ts_key_inj: "ts_key a = ts_key b \<Longrightarrow> a = b"
  by (cases a, cases b) (simp add: ts_key_def)

lemma index_key_inj: "index_key a = index_key b \<Longrightarrow> a = b"
  by (cases a; cases b) (auto dest: ts_key_inj)

lemma drop_duplicates_from_fst:
  "set (map fst (drop_duplicates_from seen rs)) \<inter> set seen = {} \<and>
   distinct (map fst (drop_duplicates_from seen rs))"
proof (induction rs arbitrary: seen)
  case Nil
  show ?case by simp
next
  case (Cons r rs)
  show ?case
  proof (cases "fst r \<in> set seen")
    case True
    with Cons.IH [of seen] show ?thesis by simp
  next
    case False
    with Cons.IH [of "fst r # seen"] show ?thesis by auto
  qed
qed

lemma distinct_drop_duplicates: "distinct (map fst (drop_duplicates rs))"
  using drop_duplicates_from_fst [of "[]" rs] by (simp add: drop_duplicates_def)

lemma distinct_map_insort_key:
  "distinct (map g (insort_key f x xs)) = (g x \<notin> g ` set xs \<and> distinct (map g xs))"
  by (induction xs) (auto simp: set_insort_key)

lemma distinct_map_sort_key:
  "distinct (map g (sort_key f xs)) = distinct (map g xs)"
  by (induction xs) (simp_all add: distinct_map_insort_key)

lemma length_sort_values: "length (sort_values rs) = length rs"
  by (simp add: sort_values_def)

lemma distinct_sort_values:
  "distinct (map fst (sort_values rs)) = distinct (map fst rs)"
  by (simp add: sort_values_def distinct_map_sort_key)

lemma sorted_sort_values: "sorted (map (\<lambda>r. index_key (fst r)) (sort_values rs))"
  by (simp add: sort_values_def)

lemma strict_sorted_sort_values:
  assumes "distinct (map fst rs)"
  shows "sorted_wrt (<) (map (\<lambda>r. index_key (fst r)) (sort_values rs))"
proof -
  have "distinct (map fst (sort_values rs))"
    using assms by (simp add: distinct_sort_values)
  then have "distinct (map index_key (map fst (sort_values rs)))"
    by (simp add: distinct_map inj_on_def index_key_inj del: map_map)
  then have "distinct (map (\<lambda>r. index_key (fst r)) (sort_values rs))"
    by (simp add: comp_def)
  with sorted_sort_values [of rs] show ?thesis
    by (simp add: strict_sorted_iff)
qed

lemma map_fst_select_column: "map fst (select_column c rs) = map fst rs"
  by (simp add: select_column_def comp_def)

lemma length_interpolate: "length (interpolate xs) = length xs"
  by (simp add: interpolate_def)

lemma interpolate_nth: "i < length xs \<Longrightarrow> interpolate xs ! i = interpolate_at xs i"
  by (simp add: interpolate_def)

lemma interpolate_keeps: "i < length xs \<Longrightarrow> xs ! i = Some v \<Longrightarrow> interpolate xs ! i = Some v"
  by (simp add: interpolate_nth interpolate_at_def)

lemma find_Some_mem: "find P xs = Some x \<Longrightarrow> x \<in> set xs \<and> P x"
  by (induction xs) (auto split: if_splits)

lemma prev_valid_Some: "prev_valid xs i = Some p \<Longrightarrow> p < i \<and> xs ! p \<noteq> None"
  unfolding prev_valid_def by (auto dest: find_Some_mem)

lemma next_valid_Some: "next_valid xs i = Some q \<Longrightarrow> i < q \<and> q < length xs \<and> xs ! q \<noteq> None"
  unfolding next_valid_def by (auto dest: find_Some_mem)

lemma prev_valid_None: "prev_valid xs i = None \<longleftrightarrow> (\<forall>j<i. xs ! j = None)"
  unfolding prev_valid_def by (auto simp: find_None_iff)

lemma interpolate_null_iff:
  assumes "i < length xs"
  shows "interpolate xs ! i = None \<longleftrightarrow> (\<forall>j\<le>i. xs ! j = None)"
proof
  assume n: "interpolate xs ! i = None"
  then have at: "interpolate_at xs i = None" using assms by (simp add: interpolate_nth)
  then have here: "xs ! i = None"
    by (auto simp: interpolate_at_def split: option.splits)
  have "prev_valid xs i = None"
  proof (cases "prev_valid xs i")
    case None then show ?thesis .
  next
    case (Some p)
    with at here prev_valid_Some [OF Some] show ?thesis
      by (auto simp: interpolate_at_def split: option.splits)
  qed
  then have "\<forall>j<i. xs ! j = None" by (simp add: prev_valid_None)
  with here show "\<forall>j\<le>i. xs ! j = None" by (auto simp: le_less)
next
  assume a: "\<forall>j\<le>i. xs ! j = None"
  then have "xs ! i = None" and "prev_valid xs i = None"
    by (auto simp: prev_valid_None)
  then show "interpolate xs ! i = None"
    using assms by (simp add: interpolate_nth interpolate_at_def)
qed

lemma set_drop_duplicates_from:
  "set (map fst (drop_duplicates_from seen rs)) = set (map fst rs) - set seen"
  by (induction rs arbitrary: seen) auto

lemma set_drop_duplicates: "set (map fst (drop_duplicates rs)) = set (map fst rs)"
  by (simp add: drop_duplicates_def set_drop_duplicates_from del: set_map)

lemma set_sort_values: "set (map fst (sort_values rs)) = set (map fst rs)"
  by (simp add: sort_values_def)

lemma find_first: "\<forall>y\<in>set xs. \<not> P y \<Longrightarrow> P x \<Longrightarrow> find P (xs @ x # ys) = Some x"
  by (induction xs) simp_all

lemma upt_split_at: "p < i \<Longrightarrow> [0..<i] = [0..<p] @ p # [Suc p..<i]"
  using upt_add_eq_append [of 0 p "i - p"] by (simp add: upt_conv_Cons)

lemma upt_split_from: "i < q \<Longrightarrow> q < n \<Longrightarrow> [Suc i..<n] = [Suc i..<q] @ q # [Suc q..<n]"
  using upt_add_eq_append [of "Suc i" q "n - q"] by (simp add: upt_conv_Cons)

lemma prev_valid_eq:
  assumes "p < i" and "xs ! p \<noteq> None" and "\<forall>j. p < j \<and> j < i \<longrightarrow> xs ! j = None"
  shows "prev_valid xs i = Some p"
proof -
  have "rev [0..<i] = rev [Suc p..<i] @ p # rev [0..<p]"
    using upt_split_at [OF assms(1)] by simp
  moreover have "\<forall>y\<in>set (rev [Suc p..<i]). \<not> xs ! y \<noteq> None"
    using assms(3) by auto
  ultimately show ?thesis
    unfolding prev_valid_def using assms(2) by (simp add: find_first del: upt_Suc)
qed

lemma next_valid_eq:
  assumes "i < q" and "q < length xs" and "xs ! q \<noteq> None"
    and "\<forall>j. i < j \<and> j < q \<longrightarrow> xs ! j = None"
  shows "next_valid xs i = Some q"
proof -
  have "[Suc i..<length xs] = [Suc i..<q] @ q # [Suc q..<length xs]"
    by (rule upt_split_from [OF assms(1) assms(2)])
  moreover have "\<forall>y\<in>set [Suc i..<q]. \<not> xs ! y \<noteq> None"
    using assms(4) by auto
  ultimately show ?thesis
    unfolding next_valid_def using assms(3) by (simp add: find_first del: upt_Suc)
qed

lemma next_valid_None: "next_valid xs i = None \<longleftrightarrow> (\<forall>j. i < j \<and> j < length xs \<longrightarrow> xs ! j = None)"
  unfolding next_valid_def by (auto simp: find_None_iff)

lemma interpolate_trailing:
  assumes "i < length xs" and "p < i" and "xs ! p = Some a"
    and "\<forall>j. p < j \<and> j < length xs \<longrightarrow> xs ! j = None"
  shows "interpolate xs ! i = Some a"
proof -
  have here: "xs ! i = None" using assms by simp
  have prev: "prev_valid xs i = Some p"
    using assms by (intro prev_valid_eq) auto
  have nxt: "next_valid xs i = None"
    using assms by (simp add: next_valid_None)
  show ?thesis
    using assms(1) assms(3) by (simp add: interpolate_nth interpolate_at_def here prev nxt)
qed

lemma interpolate_between:
  assumes "p < i" and "i < q" and "q < length xs" and "xs ! p = Some a" and "xs ! q = Some b"
    and "\<forall>j. p < j \<and> j < q \<longrightarrow> xs ! j = None"
  shows "interpolate xs ! i = Some (a + (b - a) * real (i - p) / real (q - p))"
proof -
  have i: "i < length xs" using assms by simp
  have here: "xs ! i = None" using assms by simp
  have prev: "prev_valid xs i = Some p"
    using assms by (intro prev_valid_eq) auto
  have nxt: "next_valid xs i = Some q"
    using assms by (intro next_valid_eq) auto
  show ?thesis
    using i assms(4) assms(5) by (simp add: interpolate_nth interpolate_at_def here prev nxt)
qed

lemma interpolate_id: "None \<notin> set xs \<Longrightarrow> interpolate xs = xs"
proof (rule nth_equalityI)
  show "length (interpolate xs) = length xs" by (rule length_interpolate)
next
  fix i assume n: "None \<notin> set xs" and "i < length (interpolate xs)"
  then have i: "i < length xs" by (simp add: length_interpolate)
  then have "xs ! i \<in> set xs" by simp
  with n obtain v where "xs ! i = Some v" by (cases "xs ! i") auto
  with i show "interpolate xs ! i = xs ! i" by (simp add: interpolate_keeps)
qed

lemma interpolate_column_id: "\<not> isnull_any s \<Longrightarrow> interpolate_column s = s"
  by (simp add: isnull_any_def interpolate_column_def interpolate_id zip_map_fst_snd del: set_map)

lemma map_fst_interpolate_column: "map fst (interpolate_column s) = map fst s"
  by (simp add: interpolate_column_def length_interpolate)

lemma map_snd_interpolate_column: "map snd (interpolate_column s) = interpolate (map snd s)"
  by (simp add: interpolate_column_def length_interpolate)

lemma prepare_data_eq:
  "prepare_data S data c =
     (case to_datetime (rows data) of
        None \<Rightarrow> (None, S)
      | Some parsed \<Rightarrow>
          if length (drop_duplicates parsed) < 6 \<or> c \<notin> set (columns data) then (None, S)
          else (Some (interpolate_column (select_column c (sort_values (drop_duplicates parsed)))),
                S\<lparr>historical_data := Some (select_column c (sort_values (drop_duplicates parsed)))\<rparr>))"
  by (auto simp: prepare_data_def Let_def length_sort_values interpolate_column_id split: option.splits)

section \<open>Properties of data preparation\<close>

text \<open>
  C3, as amended. For every raw frame whose dates parse, with at least 6
  distinct dates and the requested value column, \<open>prepare_data\<close> returns a
  series with one row for each distinct date, strictly ascending by timestamp
  with a missing date, if there is one, last, so without duplicate dates. Values
  that are present are kept. A null between two values is filled on the straight
  line between the nearest value before it and the nearest value after it, the
  rows counted as equally spaced; a null after the last value takes the last
  value; a null before the first value stays null: a null remains at a row
  exactly when that row and every row before it were null. So the result has no
  null when the value at the earliest date is not null. Values are taken as real
  numbers.
\<close>

theorem prepare_data_sorted_filled:
  assumes "to_datetime (rows data) = Some parsed"
    and "6 \<le> length (drop_duplicates parsed)"
    and "value_column \<in> set (columns data)"
  shows "\<exists>r. fst (prepare_data S data value_column) = Some r \<and>
           map fst r = map fst (sort_values (drop_duplicates parsed)) \<and>
           set (map fst r) = set (map fst parsed) \<and>
           sorted_wrt (<) (map (\<lambda>x. index_key (fst x)) r) \<and>
           distinct (map fst r) \<and>
           length r = length (drop_duplicates parsed) \<and>
           (\<forall>i<length r. snd (r ! i) = None \<longleftrightarrow>
              (\<forall>j\<le>i. snd (sort_values (drop_duplicates parsed) ! j) value_column = None)) \<and>
           (\<forall>i<length r. \<forall>v.
              snd (sort_values (drop_duplicates parsed) ! i) value_column = Some v \<longrightarrow>
              snd (r ! i) = Some v) \<and>
           (\<forall>i<length r. \<forall>p a.
              p < i \<and> snd (sort_values (drop_duplicates parsed) ! p) value_column = Some a \<and>
              (\<forall>j. p < j \<and> j < length r \<longrightarrow>
                 snd (sort_values (drop_duplicates parsed) ! j) value_column = None) \<longrightarrow>
              snd (r ! i) = Some a) \<and>
           (\<forall>i<length r. \<forall>p q a b.
              p < i \<and> i < q \<and> q < length r \<and>
              snd (sort_values (drop_duplicates parsed) ! p) value_column = Some a \<and>
              snd (sort_values (drop_duplicates parsed) ! q) value_column = Some b \<and>
              (\<forall>j. p < j \<and> j < q \<longrightarrow>
                 snd (sort_values (drop_duplicates parsed) ! j) value_column = None) \<longrightarrow>
              snd (r ! i) = Some (a + (b - a) * real (i - p) / real (q - p))) \<and>
           (snd (hd (sort_values (drop_duplicates parsed))) value_column \<noteq> None \<longrightarrow>
              None \<notin> set (map snd r))"
proof -
  define df where "df = sort_values (drop_duplicates parsed)"
  define hist where "hist = select_column value_column df"
  define r where "r = interpolate_column hist"
  define xs where "xs = map snd hist"
  have len_df: "length df = length (drop_duplicates parsed)"
    by (simp add: df_def length_sort_values)
  have len_hist: "length hist = length df"
    by (simp add: hist_def select_column_def)
  have len_xs: "length xs = length df"
    by (simp add: xs_def len_hist)
  have len_r: "length r = length df"
    using len_hist by (simp add: r_def interpolate_column_def length_interpolate)
  have len: "length r = length (drop_duplicates parsed)"
    using len_r len_df by simp
  have res: "fst (prepare_data S data value_column) = Some r"
    using assms by (simp add: prepare_data_eq r_def hist_def df_def)
  have dates: "map fst r = map fst df"
    by (simp add: r_def hist_def map_fst_interpolate_column map_fst_select_column)
  have dset: "set (map fst r) = set (map fst parsed)"
    unfolding dates df_def by (simp only: set_sort_values set_drop_duplicates)
  have keys: "map (\<lambda>x. index_key (fst x)) r = map (\<lambda>x. index_key (fst x)) df"
  proof -
    have "map index_key (map fst r) = map index_key (map fst df)" by (simp only: dates)
    then show ?thesis by (simp add: comp_def)
  qed
  have srt: "sorted_wrt (<) (map (\<lambda>x. index_key (fst x)) r)"
    unfolding keys df_def
    by (rule strict_sorted_sort_values) (rule distinct_drop_duplicates)
  have dst: "distinct (map fst r)"
    unfolding dates df_def
    by (simp add: distinct_sort_values distinct_drop_duplicates)
  have vals: "map snd r = interpolate xs"
    by (simp add: r_def xs_def map_snd_interpolate_column)
  have cell: "xs ! j = snd (df ! j) value_column" if "j < length df" for j
    using that by (simp add: xs_def hist_def select_column_def)
  have rcell: "snd (r ! i) = interpolate xs ! i" if "i < length r" for i
  proof -
    have "snd (r ! i) = map snd r ! i" using that by simp
    then show ?thesis by (simp only: vals)
  qed
  have nulls: "snd (r ! i) = None \<longleftrightarrow> (\<forall>j\<le>i. snd (df ! j) value_column = None)"
    if i: "i < length r" for i
  proof -
    have "snd (r ! i) = None \<longleftrightarrow> (\<forall>j\<le>i. xs ! j = None)"
      using i len_r len_xs by (simp add: rcell interpolate_null_iff)
    also have "\<dots> \<longleftrightarrow> (\<forall>j\<le>i. snd (df ! j) value_column = None)"
      using i len_r by (auto simp: cell)
    finally show ?thesis .
  qed
  have kept: "snd (r ! i) = Some v"
    if i: "i < length r" and v: "snd (df ! i) value_column = Some v" for i v
  proof -
    have "xs ! i = Some v" using i v len_r by (simp add: cell)
    then show ?thesis using i len_r len_xs by (simp add: rcell interpolate_keeps)
  qed
  have trailing: "snd (r ! i) = Some a"
    if i: "i < length r"
      and h: "p < i \<and> snd (df ! p) value_column = Some a \<and>
              (\<forall>j. p < j \<and> j < length r \<longrightarrow> snd (df ! j) value_column = None)" for i p a
  proof -
    have i': "i < length xs" using i len_r len_xs by simp
    have p: "p < i" using h by simp
    have xp: "xs ! p = Some a" using h i len_r by (simp add: cell)
    have rest: "\<forall>j. p < j \<and> j < length xs \<longrightarrow> xs ! j = None"
      using h len_r len_xs by (simp add: cell)
    show ?thesis
      using i by (simp add: rcell interpolate_trailing [OF i' p xp rest])
  qed
  have between: "snd (r ! i) = Some (a + (b - a) * real (i - p) / real (q - p))"
    if i: "i < length r"
      and h: "p < i \<and> i < q \<and> q < length r \<and>
              snd (df ! p) value_column = Some a \<and> snd (df ! q) value_column = Some b \<and>
              (\<forall>j. p < j \<and> j < q \<longrightarrow> snd (df ! j) value_column = None)" for i p q a b
  proof -
    have p: "p < i" and q: "i < q" and q': "q < length xs" using h len_r len_xs by simp_all
    have xp: "xs ! p = Some a" using h len_r by (simp add: cell)
    have xq: "xs ! q = Some b" using h len_r by (simp add: cell)
    have gap: "\<forall>j. p < j \<and> j < q \<longrightarrow> xs ! j = None"
      using h len_r by (simp add: cell)
    show ?thesis
      using i by (simp add: rcell interpolate_between [OF p q q' xp xq gap])
  qed
  have full: "None \<notin> set (map snd r)" if h: "snd (hd df) value_column \<noteq> None"
  proof
    assume "None \<in> set (map snd r)"
    then obtain i where i: "i < length r" and n: "snd (r ! i) = None"
      by (auto simp: in_set_conv_nth)
    from nulls [OF i] n have "snd (df ! 0) value_column = None" by blast
    moreover have "df \<noteq> []" using len_df assms(2) by auto
    ultimately show False using h by (simp add: hd_conv_nth)
  qed
  have "fst (prepare_data S data value_column) = Some r \<and>
        map fst r = map fst df \<and>
        set (map fst r) = set (map fst parsed) \<and>
        sorted_wrt (<) (map (\<lambda>x. index_key (fst x)) r) \<and>
        distinct (map fst r) \<and>
        length r = length (drop_duplicates parsed) \<and>
        (\<forall>i<length r. snd (r ! i) = None \<longleftrightarrow> (\<forall>j\<le>i. snd (df ! j) value_column = None)) \<and>
        (\<forall>i<length r. \<forall>v. snd (df ! i) value_column = Some v \<longrightarrow> snd (r ! i) = Some v) \<and>
        (\<forall>i<length r. \<forall>p a.
              p < i \<and> snd (df ! p) value_column = Some a \<and>
              (\<forall>j. p < j \<and> j < length r \<longrightarrow> snd (df ! j) value_column = None) \<longrightarrow>
              snd (r ! i) = Some a) \<and>
        (\<forall>i<length r. \<forall>p q a b.
              p < i \<and> i < q \<and> q < length r \<and>
              snd (df ! p) value_column = Some a \<and> snd (df ! q) value_column = Some b \<and>
              (\<forall>j. p < j \<and> j < q \<longrightarrow> snd (df ! j) value_column = None) \<longrightarrow>
              snd (r ! i) = Some (a + (b - a) * real (i - p) / real (q - p))) \<and>
        (snd (hd df) value_column \<noteq> None \<longrightarrow> None \<notin> set (map snd r))"
  proof -
    have c_nulls: "\<forall>i<length r. snd (r ! i) = None \<longleftrightarrow>
        (\<forall>j\<le>i. snd (df ! j) value_column = None)"
      using nulls by blast
    have c_kept: "\<forall>i<length r. \<forall>v. snd (df ! i) value_column = Some v \<longrightarrow>
        snd (r ! i) = Some v"
      using kept by blast
    have c_trailing: "\<forall>i<length r. \<forall>p a.
              p < i \<and> snd (df ! p) value_column = Some a \<and>
              (\<forall>j. p < j \<and> j < length r \<longrightarrow> snd (df ! j) value_column = None) \<longrightarrow>
              snd (r ! i) = Some a"
      by (intro allI impI) (rule trailing)
    have c_between: "\<forall>i<length r. \<forall>p q a b.
              p < i \<and> i < q \<and> q < length r \<and>
              snd (df ! p) value_column = Some a \<and> snd (df ! q) value_column = Some b \<and>
              (\<forall>j. p < j \<and> j < q \<longrightarrow> snd (df ! j) value_column = None) \<longrightarrow>
              snd (r ! i) = Some (a + (b - a) * real (i - p) / real (q - p))"
      by (intro allI impI) (rule between)
    have c_full: "snd (hd df) value_column \<noteq> None \<longrightarrow> None \<notin> set (map snd r)"
      using full by blast
    show ?thesis
      by (rule conjI [OF res conjI [OF dates conjI [OF dset conjI [OF srt conjI [OF dst
            conjI [OF len conjI [OF c_nulls conjI [OF c_kept conjI [OF c_trailing
            conjI [OF c_between c_full]]]]]]]]]])
  qed
  then show ?thesis
    unfolding df_def by (rule exI)
qed

theorem prepare_data_sorted_filled_witness:
  "\<exists>r. fst (prepare_data (init_model 12 ''ME'' ''medium'') gappy_frame ''price'') = Some r \<and>
       sorted_wrt (<) (map (\<lambda>x. index_key (fst x)) r) \<and> distinct (map fst r) \<and>
       length r = 6 \<and> snd (r ! 1) = Some 2 \<and> None \<notin> set (map snd r)"
proof -
  define parsed where "parsed = the (to_datetime (rows gappy_frame))"
  define df where "df = sort_values (drop_duplicates parsed)"
  have p: "to_datetime (rows gappy_frame) = Some parsed"
    by (simp add: parsed_def gappy_frame_def num_row_def)
  have n: "6 \<le> length (drop_duplicates parsed)"
    unfolding parsed_def by code_simp
  have len: "length (drop_duplicates parsed) = 6"
    unfolding parsed_def by code_simp
  have c: "''price'' \<in> set (columns gappy_frame)"
    by (simp add: gappy_frame_def)
  have h: "snd (hd df) ''price'' \<noteq> None"
    unfolding df_def parsed_def by code_simp
  have d0: "snd (df ! 0) ''price'' = Some 1"
    unfolding df_def parsed_def by code_simp
  have d1: "snd (df ! 1) ''price'' = None"
    unfolding df_def parsed_def by code_simp
  have d2: "snd (df ! 2) ''price'' = Some 3"
    unfolding df_def parsed_def by code_simp
  have gap: "\<forall>j. 0 < j \<and> j < 2 \<longrightarrow> snd (df ! j) ''price'' = None"
  proof (intro allI impI)
    fix j :: nat assume "0 < j \<and> j < 2"
    then have "j = 1" by simp
    then show "snd (df ! j) ''price'' = None" using d1 by simp
  qed
  from prepare_data_sorted_filled [OF p n c, of "init_model 12 ''ME'' ''medium''"]
  obtain r where r: "fst (prepare_data (init_model 12 ''ME'' ''medium'') gappy_frame ''price'') = Some r"
    and srt: "sorted_wrt (<) (map (\<lambda>x. index_key (fst x)) r)"
    and dst: "distinct (map fst r)"
    and lr: "length r = length (drop_duplicates parsed)"
    and between: "\<forall>i<length r. \<forall>p q a b.
              p < i \<and> i < q \<and> q < length r \<and>
              snd (df ! p) ''price'' = Some a \<and> snd (df ! q) ''price'' = Some b \<and>
              (\<forall>j. p < j \<and> j < q \<longrightarrow> snd (df ! j) ''price'' = None) \<longrightarrow>
              snd (r ! i) = Some (a + (b - a) * real (i - p) / real (q - p))"
    and full: "snd (hd df) ''price'' \<noteq> None \<longrightarrow> None \<notin> set (map snd r)"
    unfolding df_def by (elim exE conjE)
  have l6: "length r = 6" using lr len by simp
  have "snd (r ! 1) = Some (1 + (3 - 1) * real (1 - 0) / real (2 - 0))"
    using between [rule_format, of 1 0 2 1 3] l6 d0 d2 gap by simp
  then have v1: "snd (r ! 1) = Some 2" by simp
  have nonull: "None \<notin> set (map snd r)" using full h by simp
  have "fst (prepare_data (init_model 12 ''ME'' ''medium'') gappy_frame ''price'') = Some r \<and>
       sorted_wrt (<) (map (\<lambda>x. index_key (fst x)) r) \<and> distinct (map fst r) \<and>
       length r = 6 \<and> snd (r ! 1) = Some 2 \<and> None \<notin> set (map snd r)"
    by (rule conjI [OF r conjI [OF srt conjI [OF dst conjI [OF l6 conjI [OF v1 nonull]]]]])
  then show ?thesis by (rule exI)
qed

text \<open>
  C3 as stated fails on a frame with unevenly spaced dates and a null at the
  leading edge: the prepared series still holds the leading null, and the null
  of 2024-01-03, between 0 on 2024-01-02 and 30 on 2024-01-31, is filled with 15,
  the midpoint by row position, not the point of the line drawn along the dates.
\<close>

theorem prepare_data_leading_null_counterexample:
  "length (drop_duplicates (the (to_datetime (rows uneven_frame)))) = 6 \<and>
   fst (prepare_data (init_model 12 ''ME'' ''medium'') uneven_frame ''price'') =
     Some [(Some (day_stamp 2024 1 1), None), (Some (day_stamp 2024 1 2), Some 0),
           (Some (day_stamp 2024 1 3), Some 15), (Some (day_stamp 2024 1 31), Some 30),
           (Some (day_stamp 2024 2 29), Some 40), (Some (day_stamp 2024 3 31), Some 50)]"
  by code_simp

text \<open>
  C4. For every raw frame with fewer than 6 distinct timestamps,
  \<open>prepare_data\<close> returns \<open>None\<close> and leaves the object unchanged, whatever the
  object and the column; \<open>train\<close> then returns \<open>False\<close> without constructing
  or fitting any \<open>AutoTS\<close> object, and \<open>create_forecast\<close> returns no forecast.
\<close>

theorem prepare_data_rejects_short:
  assumes "to_datetime (rows data) = Some parsed"
    and "length (drop_duplicates parsed) < 6"
  shows "prepare_data S data value_column = (None, S) \<and>
         train lib S data value_column = (False, S) \<and>
         create_forecast lib data value_column h mc fr = (None, init_model h fr mc, False) \<and>
         fit_calls (fst (snd (create_forecast lib data value_column h mc fr))) = []"
proof -
  have prep: "prepare_data T data value_column = (None, T)" for T
    using assms by (simp add: prepare_data_eq)
  have tr: "train lib T data value_column = (False, T)" for T
    by (simp add: train_def prep)
  have trend: "simple_trend_forecast lib (init_model h fr mc) = None"
    by (simp add: simple_trend_forecast_def init_model_def)
  have cf: "create_forecast lib data value_column h mc fr = (None, init_model h fr mc, False)"
    by (simp add: create_forecast_def tr trend)
  show ?thesis
    by (simp add: prep tr cf) (simp add: init_model_def)
qed

theorem prepare_data_rejects_short_witness:
  "prepare_data (init_model 12 ''ME'' ''medium'')
     (price_frame [Some 1, Some 2, Some 3, Some 4, Some 5]) ''price'' =
     (None, init_model 12 ''ME'' ''medium'') \<and>
   train failing_library (init_model 12 ''ME'' ''medium'')
     (price_frame [Some 1, Some 2, Some 3, Some 4, Some 5]) ''price'' =
     (False, init_model 12 ''ME'' ''medium'') \<and>
   create_forecast failing_library (price_frame [Some 1, Some 2, Some 3, Some 4, Some 5])
     ''price'' 12 ''medium'' ''ME'' = (None, init_model 12 ''ME'' ''medium'', False)"
proof -
  define parsed where
    "parsed = the (to_datetime (rows (price_frame [Some 1, Some 2, Some 3, Some 4, Some 5])))"
  have p: "to_datetime (rows (price_frame [Some 1, Some 2, Some 3, Some 4, Some 5])) = Some parsed"
    unfolding parsed_def price_frame_def by (simp add: month_ends_2024_def)
  have n: "length (drop_duplicates parsed) < 6"
    unfolding parsed_def by code_simp
  from prepare_data_rejects_short [OF p n] show ?thesis by blast
qed

text \<open>
  C9 at a frame with one interior null: the series \<open>prepare_data\<close> returns has
  the interpolated value 2 at the second row, the copy kept in
  \<open>historical_data\<close> was taken before the fill and still has the null there, and
  the trend extrapolation that consumes it when training fails yields null
  forecast values.
\<close>

theorem historical_data_keeps_null:
  "fst (prepare_data (init_model 2 ''ME'' ''medium'')
          (price_frame [Some 1, None, Some 3, Some 4, Some 5, Some 6]) ''price'') =
     Some [(Some (day_stamp 2024 1 31), Some 1), (Some (day_stamp 2024 2 29), Some 2),
           (Some (day_stamp 2024 3 31), Some 3), (Some (day_stamp 2024 4 30), Some 4),
           (Some (day_stamp 2024 5 31), Some 5), (Some (day_stamp 2024 6 30), Some 6)] \<and>
   historical_data (snd (prepare_data (init_model 2 ''ME'' ''medium'')
          (price_frame [Some 1, None, Some 3, Some 4, Some 5, Some 6]) ''price'')) =
     Some [(Some (day_stamp 2024 1 31), Some 1), (Some (day_stamp 2024 2 29), None),
           (Some (day_stamp 2024 3 31), Some 3), (Some (day_stamp 2024 4 30), Some 4),
           (Some (day_stamp 2024 5 31), Some 5), (Some (day_stamp 2024 6 30), Some 6)] \<and>
   fst (create_forecast failing_library
          (price_frame [Some 1, None, Some 3, Some 4, Some 5, Some 6]) ''price'' 2 ''medium'' ''ME'') =
     Some [(day_stamp 2024 7 31, None), (day_stamp 2024 8 31, None)]"
  by code_simp

section \<open>Facts about trend extrapolation and training\<close>

lemma length_arange: "length (arange a b) = nat (b - a)"
  by (simp add: arange_def)

lemma trend_values_length:
  assumes "vals \<noteq> []"
  shows "\<exists>fv. trend_values lib fl vals = Some fv \<and> length fv = nat fl"
proof (cases "length vals < 2")
  case True
  with assms show ?thesis by (simp add: trend_values_def)
next
  case False
  then show ?thesis
    by (simp add: trend_values_def Let_def case_prod_beta length_arange)
qed

lemma trend_dates_length:
  assumes "0 \<le> fl"
    and "freq = ''D'' \<or> freq = ''ME'' \<or>
         (\<exists>ds. date_range_freq lib freq (add_days t 30) fl = Some ds \<and> length ds = nat fl)"
  shows "\<exists>ds. trend_dates lib freq fl (Some t) = Some ds \<and> length ds = nat fl"
proof -
  consider "freq = ''D''" | "freq = ''ME''" | "freq \<noteq> ''D''" "freq \<noteq> ''ME''" by blast
  then show ?thesis
  proof cases
    case 1
    then show ?thesis using assms(1) by (simp add: trend_dates_def date_range_def)
  next
    case 2
    then show ?thesis using assms(1) by (simp add: trend_dates_def date_range_def)
  next
    case 3
    with assms(2) obtain ds where
      "date_range_freq lib freq (add_days t 30) fl = Some ds" "length ds = nat fl"
      by blast
    with 3 assms(1) show ?thesis by (simp add: trend_dates_def date_range_def)
  qed
qed

lemma simple_trend_forecast_shape:
  assumes h: "historical_data S = Some hist" and ne: "hist \<noteq> []"
    and lst: "fst (last hist) = Some t"
    and fl: "0 \<le> forecast_length S"
    and fr: "frequency S = ''D'' \<or> frequency S = ''ME'' \<or>
         (\<exists>ds. date_range_freq lib (frequency S) (add_days t 30) (forecast_length S) = Some ds \<and>
               length ds = nat (forecast_length S))"
  shows "\<exists>f. simple_trend_forecast lib S = Some f \<and> length f = nat (forecast_length S) \<and>
           trend_values lib (forecast_length S) (map snd hist) = Some (map snd f) \<and>
           trend_dates lib (frequency S) (forecast_length S) (fst (last hist)) = Some (map fst f)"
proof -
  from ne have "map snd hist \<noteq> []" by simp
  from trend_values_length [OF this, of lib "forecast_length S"] obtain fv where
    fv: "trend_values lib (forecast_length S) (map snd hist) = Some fv"
        "length fv = nat (forecast_length S)"
    by blast
  from trend_dates_length [OF fl fr] obtain ds where
    ds: "trend_dates lib (frequency S) (forecast_length S) (fst (last hist)) = Some ds"
      "length ds = nat (forecast_length S)"
    unfolding lst by blast
  have res: "simple_trend_forecast lib S = Some (zip ds fv)"
    using h ne fv ds by (simp add: simple_trend_forecast_def data_frame_def)
  have len: "length (zip ds fv) = nat (forecast_length S)" using fv ds by simp
  have v: "trend_values lib (forecast_length S) (map snd hist) = Some (map snd (zip ds fv))"
    using fv ds by simp
  have d: "trend_dates lib (frequency S) (forecast_length S) (fst (last hist)) =
      Some (map fst (zip ds fv))"
    using fv ds by simp
  have "simple_trend_forecast lib S = Some (zip ds fv) \<and>
        length (zip ds fv) = nat (forecast_length S) \<and>
        trend_values lib (forecast_length S) (map snd hist) = Some (map snd (zip ds fv)) \<and>
        trend_dates lib (frequency S) (forecast_length S) (fst (last hist)) =
          Some (map fst (zip ds fv))"
    by (rule conjI [OF res conjI [OF len conjI [OF v d]]])
  then show ?thesis by (rule exI)
qed

lemma to_datetime_no_missing:
  assumes "to_datetime rs = Some parsed" and "DateMissing \<notin> fst ` set rs"
  shows "None \<notin> fst ` set parsed"
  using assms
proof (induction rs arbitrary: parsed)
  case Nil
  then show ?case by simp
next
  case (Cons r rs)
  obtain d c where r: "r = (d, c)" by (cases r)
  show ?case
  proof (cases d)
    case (DateValue t)
    with Cons.prems r obtain rest where rest: "to_datetime rs = Some rest" "parsed = (Some t, c) # rest"
      by auto
    from Cons.IH [OF rest(1)] Cons.prems(2) have "None \<notin> fst ` set rest" by simp
    with rest(2) show ?thesis by simp
  next
    case DateMissing
    with Cons.prems(2) r show ?thesis by simp
  next
    case DateInvalid
    with Cons.prems(1) r show ?thesis by simp
  qed
qed

lemma prepare_data_success:
  assumes "fst (prepare_data S data c) = Some ts"
  shows "\<exists>parsed. to_datetime (rows data) = Some parsed \<and>
           \<not> length (drop_duplicates parsed) < 6 \<and> c \<in> set (columns data)"
  using assms by (auto simp: prepare_data_eq split: option.splits if_splits)

lemma fallback_prepared_state:
  "historical_data (snd (train_simple_fallback lib S (Prepared ts) None)) = historical_data S \<and>
   forecast_length (snd (train_simple_fallback lib S (Prepared ts) None)) = forecast_length S \<and>
   frequency (snd (train_simple_fallback lib S (Prepared ts) None)) = frequency S"
  by (simp add: train_simple_fallback_def Let_def split: fit_outcome.splits)

lemma fallback_raw_state:
  assumes "to_datetime (rows data) = Some parsed"
    and "\<not> length (drop_duplicates parsed) < 6" and "c \<in> set (columns data)"
    and "historical_data S = Some (select_column c (sort_values (drop_duplicates parsed)))"
  shows
  "historical_data (snd (train_simple_fallback lib S (Raw data) (Some c))) = historical_data S \<and>
   forecast_length (snd (train_simple_fallback lib S (Raw data) (Some c))) = forecast_length S \<and>
   frequency (snd (train_simple_fallback lib S (Raw data) (Some c))) = frequency S"
  using assms
  by (simp add: train_simple_fallback_def prepare_data_eq Let_def split: fit_outcome.splits)

lemma train_state:
  assumes p: "to_datetime (rows data) = Some parsed"
    and n: "\<not> length (drop_duplicates parsed) < 6" and c: "c \<in> set (columns data)"
  shows
  "historical_data (snd (train lib S data c)) =
     Some (select_column c (sort_values (drop_duplicates parsed))) \<and>
   forecast_length (snd (train lib S data c)) = forecast_length S \<and>
   frequency (snd (train lib S data c)) = frequency S"
proof -
  define hist where "hist = select_column c (sort_values (drop_duplicates parsed))"
  define S1 where "S1 = S\<lparr>historical_data := Some hist\<rparr>"
  define ts where "ts = interpolate_column hist"
  define args where "args = primary_args S1 (length ts)"
  define S2 where "S2 = S1\<lparr>fit_calls := fit_calls S1 @ [args]\<rparr>"
  have prep: "prepare_data S data c = (Some ts, S1)"
    using p n c by (simp add: prepare_data_eq ts_def S1_def hist_def)
  have h2: "historical_data S2 = Some (select_column c (sort_values (drop_duplicates parsed)))"
    by (simp add: S2_def S1_def hist_def)
  show ?thesis
  proof (cases "autots_fit lib args (Prepared ts)")
    case FitRaises
    then have t: "train lib S data c = train_simple_fallback lib S2 (Raw data) (Some c)"
      by (simp add: train_def prep Let_def args_def S2_def)
    from fallback_raw_state [OF p n c h2, of lib] show ?thesis
      unfolding t by (simp add: S2_def S1_def hist_def)
  next
    case (Fitted m)
    show ?thesis
    proof (cases "truthy (best_name m) \<and> best_name m \<noteq> Some ''ZeroesNaive''")
      case True
      with Fitted have "train lib S data c =
          (True, S2\<lparr>model := Some m, best_model_name := best_name m, training_successful := True\<rparr>)"
        by (simp add: train_def prep Let_def args_def S2_def)
      then show ?thesis by (simp add: S2_def S1_def hist_def)
    next
      case False
      with Fitted have t: "train lib S data c =
          train_simple_fallback lib (S2\<lparr>model := Some m\<rparr>) (Prepared ts) None"
        by (auto simp add: train_def prep Let_def args_def S2_def)
      from fallback_prepared_state [of lib "S2\<lparr>model := Some m\<rparr>" ts] show ?thesis
        unfolding t by (simp add: S2_def S1_def hist_def)
    qed
  qed
qed

lemma fallback_name_differs: "nm @ '' (fallback)'' \<noteq> ''ZeroesNaive''"
proof
  assume "nm @ '' (fallback)'' = ''ZeroesNaive''"
  then have "last (nm @ '' (fallback)'') = last ''ZeroesNaive''" by simp
  then show False by simp
qed

lemma prepare_data_state:
  assumes "prepare_data S data c = (Some ts, S1)"
  shows "\<exists>hist. S1 = S\<lparr>historical_data := Some hist\<rparr>"
  using assms by (auto simp: prepare_data_eq split: option.splits if_splits)

lemma upto_from_0: "[0..int n - 1] = map int [0..<n]"
  by (induction n) (simp_all add: upto_rec2)

lemma upto_shift: "[int m..int m + int k - 1] = map (\<lambda>j. int (m + j)) [0..<k]"
proof (induction k)
  case 0
  show ?case by simp
next
  case (Suc k)
  have "[int m..int m + int (Suc k) - 1] = [int m..int m + int k - 1] @ [int m + int k]"
    by (simp add: upto_rec2)
  with Suc show ?case by simp
qed

lemma arange_from_0: "arange 0 (int n) = map real [0..<n]"
  by (simp add: arange_def upto_from_0)

lemma arange_future:
  assumes "0 \<le> k"
  shows "arange (int n) (int n + k) = map (\<lambda>j. real (n + j)) [0..<nat k]"
proof -
  from assms have "k = int (nat k)" by simp
  then have "arange (int n) (int n + k) = arange (int n) (int n + int (nat k))" by simp
  also have "\<dots> = map (\<lambda>j. real (n + j)) [0..<nat k]"
    unfolding arange_def upto_shift by (simp add: comp_def)
  finally show ?thesis .
qed

lemma trend_values_fit:
  assumes "2 \<le> length vals" and "0 \<le> fl"
  shows "trend_values lib fl vals =
     Some (map (\<lambda>k. cell_add (cell_mul (fst (polyfit1 lib (map real [0..<length vals]) vals))
                                       (Some (real (length vals + k))))
                             (snd (polyfit1 lib (map real [0..<length vals]) vals)))
               [0..<nat fl])"
  using assms
  by (simp add: trend_values_def Let_def case_prod_beta arange_from_0 arange_future comp_def)

lemma trend_dates_daily:
  "0 \<le> fl \<Longrightarrow>
   trend_dates lib ''D'' fl (Some t) = Some (map (\<lambda>k. add_days (add_days t 1) k) [0..<nat fl])"
  by (simp add: trend_dates_def date_range_def)

lemma trend_dates_month_ends:
  "trend_dates lib ''ME'' fl (Some t) =
     Some (map (\<lambda>k. ((\<lambda>u. month_end (month_begin_next u)) ^^ k) (month_end (month_begin_next t)))
               [0..<nat fl])"
  by (simp add: trend_dates_def date_range_def)

section \<open>Properties of the fallback chain\<close>

text \<open>
  C1, as amended. For every frame without a missing date on which
  \<open>prepare_data\<close> succeeds, if \<open>train\<close> returns \<open>False\<close> (the primary and the
  fallback tier both failed), \<open>create_forecast\<close> returns a forecast with
  exactly as many rows as the requested horizon and reports success; the
  forecast is the one \<open>_simple_trend_forecast\<close> computes from the series kept
  by \<open>prepare_data\<close>, of n rows: its k-th value is slope * (n + k) + intercept
  for the coefficients \<open>np.polyfit\<close> returns on that series, and its dates
  follow the last date of that series, day by day for \<open>'D'\<close> and month end by
  month end for \<open>'ME'\<close>. The horizon is a count (not negative) and the
  frequency is one \<open>pd.date_range\<close> accepts: \<open>'D'\<close>, \<open>'ME'\<close>, or a string for
  which the library returns that many dates.
\<close>

theorem create_forecast_falls_back_to_trend:
  assumes prep: "fst (prepare_data (init_model h fr mc) data col) = Some ts"
    and dated: "DateMissing \<notin> fst ` set (rows data)"
    and fail: "\<not> fst (train lib (init_model h fr mc) data col)"
    and h: "0 \<le> h"
    and freq: "fr = ''D'' \<or> fr = ''ME'' \<or>
               (\<forall>start. \<exists>ds. date_range_freq lib fr start h = Some ds \<and> length ds = nat h)"
  shows "\<exists>f S hist t. create_forecast lib data col h mc fr = (Some f, S, True) \<and>
           length f = nat h \<and> simple_trend_forecast lib S = Some f \<and>
           S = snd (train lib (init_model h fr mc) data col) \<and>
           historical_data (snd (prepare_data (init_model h fr mc) data col)) = Some hist \<and>
           historical_data S = Some hist \<and> 6 \<le> length hist \<and> fst (last hist) = Some t \<and>
           map snd f =
             map (\<lambda>k. cell_add
                   (cell_mul (fst (polyfit1 lib (map real [0..<length hist]) (map snd hist)))
                             (Some (real (length hist + k))))
                   (snd (polyfit1 lib (map real [0..<length hist]) (map snd hist))))
                 [0..<nat h] \<and>
           trend_dates lib fr h (Some t) = Some (map fst f) \<and>
           (fr = ''D'' \<longrightarrow> map fst f = map (\<lambda>k. add_days (add_days t 1) k) [0..<nat h]) \<and>
           (fr = ''ME'' \<longrightarrow>
              map fst f =
                map (\<lambda>k. ((\<lambda>u. month_end (month_begin_next u)) ^^ k)
                            (month_end (month_begin_next t)))
                    [0..<nat h])"
proof -
  define S where "S = snd (train lib (init_model h fr mc) data col)"
  from prepare_data_success [OF prep] obtain parsed where
    p: "to_datetime (rows data) = Some parsed"
    and n: "\<not> length (drop_duplicates parsed) < 6" and c: "col \<in> set (columns data)"
    by blast
  define df where "df = sort_values (drop_duplicates parsed)"
  define hist where "hist = select_column col df"
  from train_state [OF p n c, of lib "init_model h fr mc"]
  have hd: "historical_data S = Some hist" and fl: "forecast_length S = h" and fq: "frequency S = fr"
    by (simp_all add: S_def hist_def df_def init_model_def)
  have hp: "historical_data (snd (prepare_data (init_model h fr mc) data col)) = Some hist"
    using p n c by (simp add: prepare_data_eq hist_def df_def)
  have len6: "6 \<le> length hist"
    using n by (simp add: hist_def df_def select_column_def length_sort_values)
  then have ne: "hist \<noteq> []" by auto
  have "fst (last hist) \<in> set (map fst hist)" using ne by (simp add: last_in_set)
  also have "set (map fst hist) = set (map fst parsed)"
    unfolding hist_def df_def map_fst_select_column
    by (simp only: set_sort_values set_drop_duplicates)
  finally have "fst (last hist) \<in> fst ` set parsed" by simp
  moreover have "None \<notin> fst ` set parsed" by (rule to_datetime_no_missing [OF p dated])
  ultimately obtain t where lst: "fst (last hist) = Some t"
    by (cases "fst (last hist)") auto
  have fl0: "0 \<le> forecast_length S" using h fl by simp
  have fr': "frequency S = ''D'' \<or> frequency S = ''ME'' \<or>
         (\<exists>ds. date_range_freq lib (frequency S) (add_days t 30) (forecast_length S) = Some ds \<and>
               length ds = nat (forecast_length S))"
    using freq fl fq by auto
  from simple_trend_forecast_shape [OF hd ne lst fl0 fr'] obtain f where
    f: "simple_trend_forecast lib S = Some f" "length f = nat h"
       "trend_values lib h (map snd hist) = Some (map snd f)"
       "trend_dates lib fr h (fst (last hist)) = Some (map fst f)"
    unfolding fl fq by (elim exE conjE)
  have "2 \<le> length (map snd hist)" using len6 by simp
  from trend_values_fit [OF this h, of lib] f(3)
  have vals: "map snd f =
             map (\<lambda>k. cell_add
                   (cell_mul (fst (polyfit1 lib (map real [0..<length hist]) (map snd hist)))
                             (Some (real (length hist + k))))
                   (snd (polyfit1 lib (map real [0..<length hist]) (map snd hist))))
                 [0..<nat h]"
    by simp
  have dates: "trend_dates lib fr h (Some t) = Some (map fst f)"
    using f(4) lst by simp
  have daily: "fr = ''D'' \<longrightarrow> map fst f = map (\<lambda>k. add_days (add_days t 1) k) [0..<nat h]"
    using dates trend_dates_daily [OF h, of lib t] by auto
  have monthly: "fr = ''ME'' \<longrightarrow>
              map fst f =
                map (\<lambda>k. ((\<lambda>u. month_end (month_begin_next u)) ^^ k)
                            (month_end (month_begin_next t)))
                    [0..<nat h]"
    using dates trend_dates_month_ends [of lib h t] by auto
  have tr: "train lib (init_model h fr mc) data col = (False, S)"
    using fail by (simp add: S_def prod_eq_iff)
  have cf: "create_forecast lib data col h mc fr = (Some f, S, True)"
    by (simp add: create_forecast_def tr f Let_def)
  have "create_forecast lib data col h mc fr = (Some f, S, True) \<and>
           length f = nat h \<and> simple_trend_forecast lib S = Some f \<and>
           S = snd (train lib (init_model h fr mc) data col) \<and>
           historical_data (snd (prepare_data (init_model h fr mc) data col)) = Some hist \<and>
           historical_data S = Some hist \<and> 6 \<le> length hist \<and> fst (last hist) = Some t \<and>
           map snd f =
             map (\<lambda>k. cell_add
                   (cell_mul (fst (polyfit1 lib (map real [0..<length hist]) (map snd hist)))
                             (Some (real (length hist + k))))
                   (snd (polyfit1 lib (map real [0..<length hist]) (map snd hist))))
                 [0..<nat h] \<and>
           trend_dates lib fr h (Some t) = Some (map fst f) \<and>
           (fr = ''D'' \<longrightarrow> map fst f = map (\<lambda>k. add_days (add_days t 1) k) [0..<nat h]) \<and>
           (fr = ''ME'' \<longrightarrow>
              map fst f =
                map (\<lambda>k. ((\<lambda>u. month_end (month_begin_next u)) ^^ k)
                            (month_end (month_begin_next t)))
                    [0..<nat h])"
    by (rule conjI [OF cf conjI [OF f(2) conjI [OF f(1) conjI [OF S_def conjI [OF hp
          conjI [OF hd conjI [OF len6 conjI [OF lst conjI [OF vals conjI [OF dates
          conjI [OF daily monthly]]]]]]]]]]])
  then show ?thesis by (intro exI)
qed

theorem create_forecast_falls_back_to_trend_witness:
  "\<exists>f S. create_forecast failing_library six_prices ''price'' 3 ''medium'' ''ME'' = (Some f, S, True) \<and>
         length f = 3 \<and> simple_trend_forecast failing_library S = Some f"
proof -
  have prep: "fst (prepare_data (init_model 3 ''ME'' ''medium'') six_prices ''price'') =
      Some (the (fst (prepare_data (init_model 3 ''ME'' ''medium'') six_prices ''price'')))"
    by code_simp
  have dated: "DateMissing \<notin> fst ` set (rows six_prices)"
    by (simp add: six_prices_def price_frame_def month_ends_2024_def)
  have fail: "\<not> fst (train failing_library (init_model 3 ''ME'' ''medium'') six_prices ''price'')"
    by code_simp
  from create_forecast_falls_back_to_trend [OF prep dated fail]
  obtain f S where "create_forecast failing_library six_prices ''price'' 3 ''medium'' ''ME'' =
      (Some f, S, True)" "length f = nat 3" "simple_trend_forecast failing_library S = Some f"
    by auto
  then have "create_forecast failing_library six_prices ''price'' 3 ''medium'' ''ME'' =
      (Some f, S, True) \<and> length f = 3 \<and> simple_trend_forecast failing_library S = Some f"
    by simp
  then show ?thesis by (intro exI)
qed

text \<open>
  C1 as stated fails on a frame with a missing date: \<open>prepare_data\<close> succeeds
  on the six dated rows and the row without a date, both training tiers fail,
  the last index entry is \<open>NaT\<close>, \<open>pd.date_range\<close> raises, and
  \<open>create_forecast\<close> returns no forecast and reports failure.
\<close>

theorem missing_date_counterexample:
  "fst (prepare_data (init_model 3 ''ME'' ''medium'') missing_date_frame ''price'') \<noteq> None \<and>
   \<not> fst (train failing_library (init_model 3 ''ME'' ''medium'') missing_date_frame ''price'') \<and>
   fst (create_forecast failing_library missing_date_frame ''price'' 3 ''medium'' ''ME'') = None \<and>
   \<not> snd (snd (create_forecast failing_library missing_date_frame ''price'' 3 ''medium'' ''ME''))"
  by code_simp

text \<open>
  C2. In every training run in which the primary fit selects \<open>'ZeroesNaive'\<close>,
  \<open>train\<close> is the fallback tier run on the prepared series: the fallback
  \<open>AutoTS\<close> object is constructed and fitted after the primary one. Every
  non-empty best model name the fallback fit yields is accepted: the run
  succeeds, the name is stored with the suffix \<open>' (fallback)'\<close>, the fallback
  model replaces the rejected one, and \<open>predict\<close> serves the fallback model's
  forecast. The run succeeds in no other way, so a success always carries the
  suffix; a failed run leaves the stored name and the success flag as they
  were; and the stored name does not become \<open>'ZeroesNaive'\<close>.
\<close>

theorem zero_baseline_rejected:
  assumes prep: "prepare_data S data col = (Some ts, S1)"
    and fit: "autots_fit lib (primary_args S1 (length ts)) (Prepared ts) = Fitted m"
    and zero: "best_name m = Some ''ZeroesNaive''"
  shows "train lib S data col =
           train_simple_fallback lib
             (S1\<lparr>fit_calls := fit_calls S1 @ [primary_args S1 (length ts)], model := Some m\<rparr>)
             (Prepared ts) None \<and>
         fit_calls (snd (train lib S data col)) =
           fit_calls S @ [primary_args S1 (length ts), fallback_args S1] \<and>
         (\<forall>m2 nm. autots_fit lib (fallback_args S1) (Prepared ts) = Fitted m2 \<and>
                  best_name m2 = Some nm \<and> nm \<noteq> [] \<longrightarrow>
            fst (train lib S data col) \<and>
            training_successful (snd (train lib S data col)) \<and>
            best_model_name (snd (train lib S data col)) = Some (nm @ '' (fallback)'') \<and>
            model (snd (train lib S data col)) = Some m2 \<and>
            predict lib (snd (train lib S data col)) =
              (case predict_result m2 of
                 PredictForecast f \<Rightarrow> Some f
               | PredictUnusable \<Rightarrow> simple_trend_forecast lib (snd (train lib S data col))
               | PredictRaises \<Rightarrow> simple_trend_forecast lib (snd (train lib S data col)))) \<and>
         (fst (train lib S data col) \<longrightarrow>
            (\<exists>m2 nm. autots_fit lib (fallback_args S1) (Prepared ts) = Fitted m2 \<and>
                     best_name m2 = Some nm \<and> nm \<noteq> [] \<and>
                     best_model_name (snd (train lib S data col)) = Some (nm @ '' (fallback)'') \<and>
                     model (snd (train lib S data col)) = Some m2)) \<and>
         (\<not> fst (train lib S data col) \<longrightarrow>
            best_model_name (snd (train lib S data col)) = best_model_name S \<and>
            training_successful (snd (train lib S data col)) = training_successful S) \<and>
         (best_model_name S \<noteq> Some ''ZeroesNaive'' \<longrightarrow>
            best_model_name (snd (train lib S data col)) \<noteq> Some ''ZeroesNaive'')"
proof -
  from prepare_data_state [OF prep] obtain hist where
    S1: "S1 = S\<lparr>historical_data := Some hist\<rparr>" by blast
  define S3 where
    "S3 = S1\<lparr>fit_calls := fit_calls S1 @ [primary_args S1 (length ts)], model := Some m\<rparr>"
  define R where "R = train lib S data col"
  define F where "F = autots_fit lib (fallback_args S1) (Prepared ts)"
  have calls: "fit_calls S1 = fit_calls S" and nm0: "best_model_name S1 = best_model_name S"
    and ts0: "training_successful S1 = training_successful S"
    by (simp_all add: S1)
  have t: "R = train_simple_fallback lib S3 (Prepared ts) None"
    unfolding R_def S3_def using fit zero
    by (simp add: train_def prep Let_def)
  have args: "fallback_args S3 = fallback_args S1"
    by (simp add: fallback_args_def S3_def)
  have c2: "fit_calls (snd R) = fit_calls S @ [primary_args S1 (length ts), fallback_args S1]"
    unfolding t
    by (simp add: train_simple_fallback_def Let_def args split: fit_outcome.splits)
       (simp add: S3_def calls)
  have c3: "fst R \<and> training_successful (snd R) \<and>
            best_model_name (snd R) = Some (nm @ '' (fallback)'') \<and> model (snd R) = Some m2 \<and>
            predict lib (snd R) =
              (case predict_result m2 of
                 PredictForecast f \<Rightarrow> Some f
               | PredictUnusable \<Rightarrow> simple_trend_forecast lib (snd R)
               | PredictRaises \<Rightarrow> simple_trend_forecast lib (snd R))"
    if a: "F = Fitted m2 \<and> best_name m2 = Some nm \<and> nm \<noteq> []" for m2 nm
  proof -
    have r: "R = (True, S3\<lparr>fit_calls := fit_calls S3 @ [fallback_args S1], model := Some m2,
                   best_model_name := Some (nm @ '' (fallback)''), training_successful := True\<rparr>)"
      unfolding t using a by (simp add: train_simple_fallback_def Let_def args F_def)
    show ?thesis unfolding r by (simp add: predict_def split: predict_outcome.splits)
  qed
  have c4: "\<exists>m2 nm. F = Fitted m2 \<and> best_name m2 = Some nm \<and> nm \<noteq> [] \<and>
              best_model_name (snd R) = Some (nm @ '' (fallback)'') \<and> model (snd R) = Some m2"
    if ok: "fst R"
  proof (cases F)
    case FitRaises
    with ok show ?thesis unfolding t
      by (simp add: train_simple_fallback_def Let_def args F_def)
  next
    case (Fitted m2)
    show ?thesis
    proof (cases "best_name m2")
      case None
      with Fitted ok show ?thesis unfolding t
        by (simp add: train_simple_fallback_def Let_def args F_def)
    next
      case (Some nm)
      with Fitted ok have "nm \<noteq> []" unfolding t
        by (auto simp: train_simple_fallback_def Let_def args F_def split: if_splits)
      with Fitted Some c3 [of m2 nm] show ?thesis by blast
    qed
  qed
  have c5: "best_model_name (snd R) = best_model_name S \<and>
            training_successful (snd R) = training_successful S"
    if bad: "\<not> fst R"
    using bad unfolding t
    by (auto simp: train_simple_fallback_def Let_def args S3_def nm0 ts0
        split: fit_outcome.splits if_splits)
  have c6: "best_model_name (snd R) \<noteq> Some ''ZeroesNaive''"
    if fresh: "best_model_name S \<noteq> Some ''ZeroesNaive''"
  proof (cases "fst R")
    case True
    from c4 [OF True] show ?thesis by (auto simp: fallback_name_differs)
  next
    case False
    from c5 [OF False] fresh show ?thesis by simp
  qed
  have "R = train_simple_fallback lib S3 (Prepared ts) None \<and>
        fit_calls (snd R) = fit_calls S @ [primary_args S1 (length ts), fallback_args S1] \<and>
        (\<forall>m2 nm. F = Fitted m2 \<and> best_name m2 = Some nm \<and> nm \<noteq> [] \<longrightarrow>
            fst R \<and> training_successful (snd R) \<and>
            best_model_name (snd R) = Some (nm @ '' (fallback)'') \<and> model (snd R) = Some m2 \<and>
            predict lib (snd R) =
              (case predict_result m2 of
                 PredictForecast f \<Rightarrow> Some f
               | PredictUnusable \<Rightarrow> simple_trend_forecast lib (snd R)
               | PredictRaises \<Rightarrow> simple_trend_forecast lib (snd R))) \<and>
        (fst R \<longrightarrow>
            (\<exists>m2 nm. F = Fitted m2 \<and> best_name m2 = Some nm \<and> nm \<noteq> [] \<and>
                     best_model_name (snd R) = Some (nm @ '' (fallback)'') \<and>
                     model (snd R) = Some m2)) \<and>
        (\<not> fst R \<longrightarrow>
            best_model_name (snd R) = best_model_name S \<and>
            training_successful (snd R) = training_successful S) \<and>
        (best_model_name S \<noteq> Some ''ZeroesNaive'' \<longrightarrow>
            best_model_name (snd R) \<noteq> Some ''ZeroesNaive'')"
  proof -
    have c3all: "\<forall>m2 nm. F = Fitted m2 \<and> best_name m2 = Some nm \<and> nm \<noteq> [] \<longrightarrow>
            fst R \<and> training_successful (snd R) \<and>
            best_model_name (snd R) = Some (nm @ '' (fallback)'') \<and> model (snd R) = Some m2 \<and>
            predict lib (snd R) =
              (case predict_result m2 of
                 PredictForecast f \<Rightarrow> Some f
               | PredictUnusable \<Rightarrow> simple_trend_forecast lib (snd R)
               | PredictRaises \<Rightarrow> simple_trend_forecast lib (snd R))"
      by (intro allI impI) (rule c3)
    have c4imp: "fst R \<longrightarrow>
            (\<exists>m2 nm. F = Fitted m2 \<and> best_name m2 = Some nm \<and> nm \<noteq> [] \<and>
                     best_model_name (snd R) = Some (nm @ '' (fallback)'') \<and>
                     model (snd R) = Some m2)"
      by (intro impI) (rule c4)
    have c5imp: "\<not> fst R \<longrightarrow>
            best_model_name (snd R) = best_model_name S \<and>
            training_successful (snd R) = training_successful S"
      by (intro impI) (rule c5)
    have c6imp: "best_model_name S \<noteq> Some ''ZeroesNaive'' \<longrightarrow>
            best_model_name (snd R) \<noteq> Some ''ZeroesNaive''"
      by (intro impI) (rule c6)
    show ?thesis
      by (rule conjI [OF t conjI [OF c2 conjI [OF c3all conjI [OF c4imp conjI [OF c5imp c6imp]]]]])
  qed
  then show ?thesis unfolding R_def S3_def F_def .
qed

theorem zero_baseline_rejected_witness:
  "fst (train zero_then_ets_library (init_model 2 ''ME'' ''medium'') six_prices ''price'') \<and>
   training_successful
     (snd (train zero_then_ets_library (init_model 2 ''ME'' ''medium'') six_prices ''price'')) \<and>
   best_model_name
     (snd (train zero_then_ets_library (init_model 2 ''ME'' ''medium'') six_prices ''price'')) =
     Some ''ETS (fallback)'' \<and>
   predict zero_then_ets_library
     (snd (train zero_then_ets_library (init_model 2 ''ME'' ''medium'') six_prices ''price'')) =
     Some [(day_stamp 2024 7 31, Some 160), (day_stamp 2024 8 31, Some 170)]"
proof -
  define ts where
    "ts = the (fst (prepare_data (init_model 2 ''ME'' ''medium'') six_prices ''price''))"
  define S1 where "S1 = snd (prepare_data (init_model 2 ''ME'' ''medium'') six_prices ''price'')"
  define m2 where "m2 = \<lparr>best_name = Some ''ETS'',
      predict_result = PredictForecast [(day_stamp 2024 7 31, Some 160),
                                        (day_stamp 2024 8 31, Some 170)]\<rparr>"
  define m where "m = \<lparr>best_name = Some ''ZeroesNaive'',
      predict_result = PredictForecast [(day_stamp 2024 7 31, Some 0),
                                        (day_stamp 2024 8 31, Some 0)]\<rparr>"
  have "fst (prepare_data (init_model 2 ''ME'' ''medium'') six_prices ''price'') = Some ts"
    unfolding ts_def by code_simp
  then have prep: "prepare_data (init_model 2 ''ME'' ''medium'') six_prices ''price'' = (Some ts, S1)"
    by (simp add: S1_def prod_eq_iff)
  have fit: "autots_fit zero_then_ets_library (primary_args S1 (length ts)) (Prepared ts) = Fitted m"
    by (simp add: zero_then_ets_library_def primary_args_def m_def)
  have zero: "best_name m = Some ''ZeroesNaive''"
    by (simp add: m_def)
  have fb: "autots_fit zero_then_ets_library (fallback_args S1) (Prepared ts) = Fitted m2 \<and>
      best_name m2 = Some ''ETS'' \<and> ''ETS'' \<noteq> []"
    by (simp add: zero_then_ets_library_def fallback_args_def m2_def)
  from zero_baseline_rejected [OF prep fit zero] have
    "\<forall>m2 nm. autots_fit zero_then_ets_library (fallback_args S1) (Prepared ts) = Fitted m2 \<and>
                  best_name m2 = Some nm \<and> nm \<noteq> [] \<longrightarrow>
       fst (train zero_then_ets_library (init_model 2 ''ME'' ''medium'') six_prices ''price'') \<and>
       training_successful
         (snd (train zero_then_ets_library (init_model 2 ''ME'' ''medium'') six_prices ''price'')) \<and>
       best_model_name
         (snd (train zero_then_ets_library (init_model 2 ''ME'' ''medium'') six_prices ''price'')) =
         Some (nm @ '' (fallback)'') \<and>
       model (snd (train zero_then_ets_library (init_model 2 ''ME'' ''medium'') six_prices ''price'')) =
         Some m2 \<and>
       predict zero_then_ets_library
         (snd (train zero_then_ets_library (init_model 2 ''ME'' ''medium'') six_prices ''price'')) =
         (case predict_result m2 of
            PredictForecast f \<Rightarrow> Some f
          | PredictUnusable \<Rightarrow> simple_trend_forecast zero_then_ets_library
              (snd (train zero_then_ets_library (init_model 2 ''ME'' ''medium'') six_prices ''price''))
          | PredictRaises \<Rightarrow> simple_trend_forecast zero_then_ets_library
              (snd (train zero_then_ets_library (init_model 2 ''ME'' ''medium'') six_prices ''price'')))"
    by (elim conjE)
  from this [rule_format, OF fb] show ?thesis by (simp add: m2_def)
qed

text \<open>
  C7, as amended. For every historical series of exactly one dated point, the
  trend extrapolation returns a flat series that repeats that point's value once
  for each period of the horizon (horizon not negative, frequency accepted by
  \<open>pd.date_range\<close>). For an empty historical series there is no last value:
  \<open>values[-1]\<close> raises and the forecast is \<open>None\<close>.
\<close>

theorem flat_forecast_single_point:
  "(historical_data S = Some [] \<longrightarrow> simple_trend_forecast lib S = None) \<and>
   (historical_data S = Some [(Some t, v)] \<and> 0 \<le> forecast_length S \<and>
    (frequency S = ''D'' \<or> frequency S = ''ME'' \<or>
       (\<exists>ds. date_range_freq lib (frequency S) (add_days t 30) (forecast_length S) = Some ds \<and>
             length ds = nat (forecast_length S))) \<longrightarrow>
    (\<exists>f. simple_trend_forecast lib S = Some f \<and>
         map snd f = replicate (nat (forecast_length S)) v))"
proof (intro conjI impI)
  assume "historical_data S = Some []"
  then show "simple_trend_forecast lib S = None"
    by (simp add: simple_trend_forecast_def trend_values_def)
next
  assume a: "historical_data S = Some [(Some t, v)] \<and> 0 \<le> forecast_length S \<and>
    (frequency S = ''D'' \<or> frequency S = ''ME'' \<or>
       (\<exists>ds. date_range_freq lib (frequency S) (add_days t 30) (forecast_length S) = Some ds \<and>
             length ds = nat (forecast_length S)))"
  then have h: "historical_data S = Some [(Some t, v)]" and fl: "0 \<le> forecast_length S"
    and fr: "frequency S = ''D'' \<or> frequency S = ''ME'' \<or>
       (\<exists>ds. date_range_freq lib (frequency S) (add_days t 30) (forecast_length S) = Some ds \<and>
             length ds = nat (forecast_length S))"
    by simp_all
  have ne: "[(Some t, v)] \<noteq> []" by simp
  have lst: "fst (last [(Some t, v)]) = Some t" by simp
  from simple_trend_forecast_shape [OF h ne lst fl fr] obtain f where
    f: "simple_trend_forecast lib S = Some f"
       "trend_values lib (forecast_length S) (map snd [(Some t, v)]) = Some (map snd f)"
    by (elim exE conjE)
  from f(2) have "map snd f = replicate (nat (forecast_length S)) v"
    by (simp add: trend_values_def)
  with f(1) show "\<exists>f. simple_trend_forecast lib S = Some f \<and>
         map snd f = replicate (nat (forecast_length S)) v" by simp
qed

theorem flat_forecast_single_point_witness:
  "simple_trend_forecast failing_library
     ((init_model 3 ''ME'' ''medium'')\<lparr>historical_data := Some []\<rparr>) = None \<and>
   (\<exists>f. simple_trend_forecast failing_library
          ((init_model 3 ''ME'' ''medium'')
             \<lparr>historical_data := Some [(Some (day_stamp 2024 1 31), Some 5000)]\<rparr>)
        = Some f \<and> map snd f = [Some 5000, Some 5000, Some 5000])"
  using flat_forecast_single_point
          [where S = "(init_model 3 ''ME'' ''medium'')\<lparr>historical_data := Some []\<rparr>"
             and lib = failing_library]
        flat_forecast_single_point
          [where S = "(init_model 3 ''ME'' ''medium'')
                        \<lparr>historical_data := Some [(Some (day_stamp 2024 1 31), Some 5000)]\<rparr>"
             and t = "day_stamp 2024 1 31" and v = "Some 5000" and lib = failing_library]
  by (simp add: init_model_def numeral_3_eq_3)

text \<open>
  C7 as stated fails for the empty series: the trend extrapolation returns
  \<open>None\<close>, not a flat series.
\<close>

theorem empty_history_counterexample:
  "simple_trend_forecast failing_library
     ((init_model 3 ''ME'' ''medium'')\<lparr>historical_data := Some []\<rparr>) = None"
  by (simp add: simple_trend_forecast_def trend_values_def init_model_def)

section \<open>Facts about month ends\<close>

lemma month_begin_next_fields:
  assumes "1 \<le> month t" and "month t \<le> 12"
  shows "month_index (month_begin_next t) = month_index t + 1 \<and>
         1 \<le> month (month_begin_next t) \<and> month (month_begin_next t) \<le> 12 \<and>
         tod (month_begin_next t) = tod t"
  using assms by (simp add: month_begin_next_def month_index_def)

lemma month_end_fields:
  "month_index (month_end t) = month_index t \<and> month (month_end t) = month t \<and>
   year (month_end t) = year t \<and> tod (month_end t) = tod t \<and>
   day (month_end t) = days_in_month (year (month_end t)) (month (month_end t))"
  by (simp add: month_end_def month_index_def)

lemma next_month_end_fields:
  assumes "1 \<le> month t" and "month t \<le> 12"
  shows "month_index (month_end (month_begin_next t)) = month_index t + 1 \<and>
         1 \<le> month (month_end (month_begin_next t)) \<and>
         month (month_end (month_begin_next t)) \<le> 12 \<and>
         tod (month_end (month_begin_next t)) = tod t \<and>
         day (month_end (month_begin_next t)) =
           days_in_month (year (month_end (month_begin_next t)))
                         (month (month_end (month_begin_next t)))"
  using month_begin_next_fields [OF assms] month_end_fields [of "month_begin_next t"]
  by simp

lemma month_end_iterate:
  assumes "1 \<le> month s" and "month s \<le> 12"
  shows "month_index (((\<lambda>t. month_end (month_begin_next t)) ^^ k) (month_end s)) =
           month_index s + int k \<and>
         1 \<le> month (((\<lambda>t. month_end (month_begin_next t)) ^^ k) (month_end s)) \<and>
         month (((\<lambda>t. month_end (month_begin_next t)) ^^ k) (month_end s)) \<le> 12 \<and>
         tod (((\<lambda>t. month_end (month_begin_next t)) ^^ k) (month_end s)) = tod s \<and>
         day (((\<lambda>t. month_end (month_begin_next t)) ^^ k) (month_end s)) =
           days_in_month (year (((\<lambda>t. month_end (month_begin_next t)) ^^ k) (month_end s)))
                         (month (((\<lambda>t. month_end (month_begin_next t)) ^^ k) (month_end s)))"
proof (induction k)
  case 0
  show ?case using assms month_end_fields [of s] by simp
next
  case (Suc k)
  define u where "u = ((\<lambda>t. month_end (month_begin_next t)) ^^ k) (month_end s)"
  from Suc have u: "month_index u = month_index s + int k" "1 \<le> month u" "month u \<le> 12"
    "tod u = tod s"
    by (simp_all add: u_def)
  have step: "((\<lambda>t. month_end (month_begin_next t)) ^^ Suc k) (month_end s) =
      month_end (month_begin_next u)"
    by (simp add: u_def)
  from next_month_end_fields [OF u(2) u(3)] u(1) u(4) show ?case
    unfolding step by simp
qed

lemma trend_dates_monthly:
  "trend_dates lib ''ME'' fl (Some t) =
     Some (map (\<lambda>k. ((\<lambda>t. month_end (month_begin_next t)) ^^ k) (month_end (month_begin_next t)))
               [0..<nat fl])"
  by (simp add: trend_dates_def date_range_def)

section \<open>Properties of the monthly forecast dates\<close>

text \<open>
  C6, as amended. For frequency \<open>'ME'\<close>, every non-empty historical series
  whose last date is a timestamp and every horizon that is not negative, the
  future timestamps of the trend extrapolation are the month ends of consecutive
  calendar months, at the time of day of the last historical timestamp: the k-th
  one (from 0) is the last day of calendar month number m + 1 + k, where m is
  the calendar month of the last historical timestamp.
\<close>

theorem monthly_forecast_dates:
  assumes h: "historical_data S = Some hist" and ne: "hist \<noteq> []"
    and fq: "frequency S = ''ME''" and fl: "0 \<le> forecast_length S"
    and lst: "fst (last hist) = Some t"
    and vm: "1 \<le> month t \<and> month t \<le> 12"
  shows "\<exists>f. simple_trend_forecast lib S = Some f \<and> length f = nat (forecast_length S) \<and>
     (\<forall>k<length f.
        month_index (fst (f ! k)) = month_index t + 1 + int k \<and>
        1 \<le> month (fst (f ! k)) \<and> month (fst (f ! k)) \<le> 12 \<and>
        day (fst (f ! k)) = days_in_month (year (fst (f ! k))) (month (fst (f ! k))) \<and>
        tod (fst (f ! k)) = tod t)"
proof -
  define s where "s = month_begin_next t"
  define g where "g = (\<lambda>k. ((\<lambda>t. month_end (month_begin_next t)) ^^ k) (month_end s))"
  define ds where "ds = map g [0..<nat (forecast_length S)]"
  from vm have t1: "1 \<le> month t" and t12: "month t \<le> 12" by simp_all
  from month_begin_next_fields [OF t1 t12]
  have s: "month_index s = month_index t + 1" "1 \<le> month s" "month s \<le> 12" "tod s = tod t"
    by (simp_all add: s_def)
  from ne have "map snd hist \<noteq> []" by simp
  from trend_values_length [OF this, of lib "forecast_length S"] obtain fv where
    fv: "trend_values lib (forecast_length S) (map snd hist) = Some fv"
        "length fv = nat (forecast_length S)"
    by blast
  have dates: "trend_dates lib (frequency S) (forecast_length S) (fst (last hist)) = Some ds"
    unfolding fq lst trend_dates_monthly ds_def g_def s_def by simp
  have len_ds: "length ds = nat (forecast_length S)" by (simp add: ds_def)
  define f where "f = zip ds fv"
  have res: "simple_trend_forecast lib S = Some f"
    using h ne fv dates len_ds by (simp add: simple_trend_forecast_def data_frame_def f_def)
  have len_f: "length f = nat (forecast_length S)"
    using fv(2) len_ds by (simp add: f_def)
  have each: "month_index (fst (f ! k)) = month_index t + 1 + int k \<and>
        1 \<le> month (fst (f ! k)) \<and> month (fst (f ! k)) \<le> 12 \<and>
        day (fst (f ! k)) = days_in_month (year (fst (f ! k))) (month (fst (f ! k))) \<and>
        tod (fst (f ! k)) = tod t"
    if k: "k < length f" for k
  proof -
    have "fst (f ! k) = ds ! k" using k len_f fv(2) len_ds by (simp add: f_def)
    also have "\<dots> = g k" using k len_f by (simp add: ds_def)
    finally have fk: "fst (f ! k) = g k" .
    from month_end_iterate [OF s(2) s(3), of k] s(1) s(4) show ?thesis
      unfolding fk g_def by simp
  qed
  have "simple_trend_forecast lib S = Some f \<and> length f = nat (forecast_length S) \<and>
     (\<forall>k<length f.
        month_index (fst (f ! k)) = month_index t + 1 + int k \<and>
        1 \<le> month (fst (f ! k)) \<and> month (fst (f ! k)) \<le> 12 \<and>
        day (fst (f ! k)) = days_in_month (year (fst (f ! k))) (month (fst (f ! k))) \<and>
        tod (fst (f ! k)) = tod t)"
    by (intro conjI allI impI res len_f each)
  then show ?thesis by (rule exI)
qed

theorem monthly_forecast_dates_witness:
  "\<exists>f. simple_trend_forecast failing_library
          ((init_model 2 ''ME'' ''medium'')\<lparr>historical_data := Some mid_january_point\<rparr>) = Some f \<and>
       length f = 2 \<and>
       (\<forall>k<length f.
          month_index (fst (f ! k)) = month_index (day_stamp 2024 1 15) + 1 + int k \<and>
          day (fst (f ! k)) = days_in_month (year (fst (f ! k))) (month (fst (f ! k))))"
proof -
  define S where "S = (init_model 2 ''ME'' ''medium'')\<lparr>historical_data := Some mid_january_point\<rparr>"
  have h: "historical_data S = Some mid_january_point" by (simp add: S_def)
  have ne: "mid_january_point \<noteq> []" by (simp add: mid_january_point_def)
  have fq: "frequency S = ''ME''" by (simp add: S_def init_model_def)
  have fl: "0 \<le> forecast_length S" by (simp add: S_def init_model_def)
  have lst: "fst (last mid_january_point) = Some (day_stamp 2024 1 15)"
    by (simp add: mid_january_point_def)
  have vm: "1 \<le> month (day_stamp 2024 1 15) \<and> month (day_stamp 2024 1 15) \<le> 12"
    by (simp add: day_stamp_def)
  have two: "nat (forecast_length S) = 2" by (simp add: S_def init_model_def)
  from monthly_forecast_dates [OF h ne fq fl lst vm, of failing_library]
  obtain f where f: "simple_trend_forecast failing_library S = Some f" "length f = 2"
    and each: "\<And>k. k < length f \<Longrightarrow>
        month_index (fst (f ! k)) = month_index (day_stamp 2024 1 15) + 1 + int k \<and>
        day (fst (f ! k)) = days_in_month (year (fst (f ! k))) (month (fst (f ! k)))"
    unfolding two by (elim exE conjE) simp
  have "simple_trend_forecast failing_library S = Some f \<and> length f = 2 \<and>
       (\<forall>k<length f.
          month_index (fst (f ! k)) = month_index (day_stamp 2024 1 15) + 1 + int k \<and>
          day (fst (f ! k)) = days_in_month (year (fst (f ! k))) (month (fst (f ! k))))"
    by (intro conjI allI impI f each)
  then show ?thesis unfolding S_def by (rule exI)
qed

text \<open>
  C6 as stated fails when the last historical timestamp is not a month end:
  after 2024-01-15 the first forecast timestamp is 2024-02-29, 45 days later,
  not one month later.
\<close>

theorem monthly_forecast_mid_month_counterexample:
  "simple_trend_forecast failing_library
     ((init_model 2 ''ME'' ''medium'')\<lparr>historical_data := Some mid_january_point\<rparr>) =
     Some [(day_stamp 2024 2 29, Some 5000), (day_stamp 2024 3 31, Some 5000)] \<and>
   fst (last mid_january_point) = Some (day_stamp 2024 1 15) \<and>
   add_days (day_stamp 2024 1 15) 45 = day_stamp 2024 2 29"
proof -
  have forecast: "simple_trend_forecast failing_library
     ((init_model 2 ''ME'' ''medium'')\<lparr>historical_data := Some mid_january_point\<rparr>) =
     Some [(day_stamp 2024 2 29, Some 5000), (day_stamp 2024 3 31, Some 5000)]"
    by code_simp
  have lst: "fst (last mid_january_point) = Some (day_stamp 2024 1 15)"
    by (simp add: mid_january_point_def)
  have days: "add_days (day_stamp 2024 1 15) 45 = day_stamp 2024 2 29"
    by (simp add: add_days_def day_stamp_def next_day_def days_in_month_def leap_year_def
        eval_nat_numeral)
  show ?thesis by (rule conjI [OF forecast conjI [OF lst days]])
qed

end
